theory Spec2Isabelle
  imports Main
begin

section \<open>Node model\<close>

text \<open>
  Modelled from the spec: the node classes of the module \<^verbatim>\<open>pytd\<close>, which
  \<^verbatim>\<open>parse/visitors.py\<close> imports and which is not among the sources.
  Their shape is taken from the attributes the visitors read
  (\<^verbatim>\<open>node.containing_type\<close>, \<^verbatim>\<open>node.cls\<close>, \<^verbatim>\<open>node.base_type\<close>, ...) and from the
  data model of the specification.  A class object has an identity: it is referred to by
  an address, and a \<^verbatim>\<open>ClassType\<close> node carries its name and a link cell that is either
  empty (\<^verbatim>\<open>None\<close>) or holds the address of a class object.  A \<^verbatim>\<open>NativeType\<close> is kept
  as the name of its Python type, which is all the visitors read of it.  A class without
  template has \<^verbatim>\<open>None\<close> as its template, as \<^verbatim>\<open>InstantiateTemplates\<close> tests and sets it.
\<close>

type_synonym addr = nat

datatype pytype =
    BasicType string
  | NativeType string
  | ClassType string "addr option"
  | HomogeneousContainerType pytype pytype
  | GenericType pytype "pytype list"
  | UnionType "pytype list"
  | IntersectionType "pytype list"

record Parameter =
  param_name :: string
  param_type :: pytype

record Signature =
  params :: "Parameter list"
  has_optional :: bool
  return_type :: pytype
  exceptions :: "pytype list"

record Function =
  func_name :: string
  signatures :: "Signature list"

record Constant =
  const_name :: string
  const_type :: pytype

record TemplateItem =
  tmpl_name :: string
  within_type :: pytype

record Class =
  name :: string
  template :: "TemplateItem list option"
  parents :: "pytype list"
  constants :: "Constant list"
  methods :: "Function list"

record TypeDeclUnit =
  unit_constants :: "Constant list"
  unit_functions :: "Function list"
  unit_classes :: "Class list"

datatype error =
    KeyError string
  | AttributeError
  | TypeError
  | NotImplementedError

section \<open>PrintVisitor\<close>

text \<open>\<^verbatim>\<open>sep.join(xs)\<close> of Python.\<close>

fun join :: "string \<Rightarrow> string list \<Rightarrow> string" where
  "join sep [] = []"
| "join sep [x] = x"
| "join sep (x # y # ys) = x @ sep @ join sep (y # ys)"

definition INDENT :: string where
  "INDENT = ''    ''"

text \<open>
  \<^verbatim>\<open>VALID_NAME = re.compile(r"^[a-zA-Z_]\w*$")\<close>, used with \<^verbatim>\<open>match\<close>.  On byte strings
  \<^verbatim>\<open>\w\<close> is a letter, a digit or an underscore, and \<^verbatim>\<open>$\<close> matches at the end of the
  string and also just before a newline that ends the string.
\<close>

definition is_letter :: "char \<Rightarrow> bool" where
  "is_letter c = (let n = (of_char c :: nat) in
     (97 \<le> n \<and> n \<le> 122) \<or> (65 \<le> n \<and> n \<le> 90) \<or> n = 95)"

definition is_word_char :: "char \<Rightarrow> bool" where
  "is_word_char c = (let n = (of_char c :: nat) in
     is_letter c \<or> (48 \<le> n \<and> n \<le> 57))"

fun VALID_NAME_match :: "string \<Rightarrow> bool" where
  "VALID_NAME_match [] = False"
| "VALID_NAME_match (c # cs) =
     (is_letter c \<and>
      (list_all is_word_char cs \<or>
       (cs \<noteq> [] \<and> last cs = CHR 0x0A \<and> list_all is_word_char (butlast cs))))"

definition SafeName :: "string \<Rightarrow> string" where
  "SafeName nm = (if \<not> VALID_NAME_match nm then ''`'' @ nm @ ''`'' else nm)"

text \<open>
  The handlers of \<^verbatim>\<open>PrintVisitor\<close>.  The traversal is post-order, so a handler
  receives a node whose children are already rendered: the fields that hold nodes
  are strings here.
\<close>

definition VisitConstant :: "string \<Rightarrow> string \<Rightarrow> string" where
  "VisitConstant nm ty = nm @ '': '' @ ty"

definition VisitParameter :: "string \<Rightarrow> string \<Rightarrow> string" where
  "VisitParameter nm ty = (if ty \<noteq> ''object'' then nm @ '': '' @ ty else nm)"

definition VisitSignature :: "string list \<Rightarrow> bool \<Rightarrow> string \<Rightarrow> string list \<Rightarrow> string" where
  "VisitSignature ps opt rt excs =
     (let ret = (if rt \<noteq> ''object'' then '' -> '' @ rt else '''');
          exc = (if excs \<noteq> [] then '' raises '' @ join '', '' excs else '''');
          optional = (if opt then [''...''] else [])
      in ''('' @ join '', '' (ps @ optional) @ '')'' @ ret @ exc)"

definition VisitFunction :: "string \<Rightarrow> string list \<Rightarrow> string" where
  "VisitFunction nm sigs = join [CHR 0x0A] (map (\<lambda>sig. ''def '' @ nm @ sig) sigs)"

definition VisitTemplateItem :: "string \<Rightarrow> string \<Rightarrow> string" where
  "VisitTemplateItem nm within = nm @ ''<'' @ within @ ''>''"

text \<open>\<^verbatim>\<open>str.splitlines()\<close> on a byte string: lines end at LF, CR or CR LF.\<close>

fun splitlines_acc :: "string \<Rightarrow> string \<Rightarrow> string list" where
  "splitlines_acc acc [] = (if acc = [] then [] else [rev acc])"
| "splitlines_acc acc (c # cs) =
     (if c = CHR 0x0A then rev acc # splitlines_acc [] cs
      else if c = CHR 0x0D then
        (case cs of
           [] \<Rightarrow> [rev acc]
         | d # ds \<Rightarrow> if d = CHR 0x0A then rev acc # splitlines_acc [] ds
                    else rev acc # splitlines_acc [] cs)
      else splitlines_acc (c # acc) cs)"

definition splitlines :: "string \<Rightarrow> string list" where
  "splitlines s = splitlines_acc [] s"

definition VisitClass ::
  "string \<Rightarrow> string list option \<Rightarrow> string list \<Rightarrow> string list \<Rightarrow> string list \<Rightarrow> string" where
  "VisitClass nm tmpl prnts consts meths =
     (let parents_s = (if prnts \<noteq> [] then ''('' @ join '', '' prnts @ '')'' else '''');
          template_s = (case tmpl of
                          None \<Rightarrow> ''''
                        | Some ts \<Rightarrow> if ts \<noteq> [] then ''<'' @ join '', '' ts @ ''>'' else '''');
          constants_l = map (\<lambda>m. INDENT @ m) consts;
          methods_l = (if meths \<noteq> []
                       then map (\<lambda>m. INDENT @ m) (concat (map splitlines meths))
                       else [INDENT @ ''pass'']);
          header = ''class '' @ SafeName nm @ template_s @ parents_s @ '':''
      in join [CHR 0x0A] ([header] @ constants_l @ methods_l) @ [CHR 0x0A])"

definition VisitTypeDeclUnit_print :: "string list \<Rightarrow> string list \<Rightarrow> string list \<Rightarrow> string" where
  "VisitTypeDeclUnit_print consts funs clss =
     join [CHR 0x0A, CHR 0x0A]
       (map (join [CHR 0x0A]) (filter (\<lambda>section. section \<noteq> []) [consts, funs, clss]))"

definition VisitHomogeneousContainerType_print :: "string \<Rightarrow> string \<Rightarrow> string" where
  "VisitHomogeneousContainerType_print base elem = base @ ''<'' @ elem @ ''>''"

definition VisitGenericType_print :: "string \<Rightarrow> string list \<Rightarrow> string" where
  "VisitGenericType_print base ps = base @ ''<'' @ join '', '' ps @ ''>''"

definition VisitUnionType :: "string list \<Rightarrow> string" where
  "VisitUnionType ts = join '' or '' ts"

definition VisitIntersectionType :: "string list \<Rightarrow> string" where
  "VisitIntersectionType ts = join '' and '' ts"

section \<open>Rendering a tree\<close>

text \<open>
  Modelled from the spec: the traversal protocol \<^verbatim>\<open>node.Visit(visitor)\<close> of the module
  \<^verbatim>\<open>pytd\<close>, which is not part of \<^verbatim>\<open>parse/visitors.py\<close>: every child is visited first,
  the node is rebuilt from the results, and the visitor's handler for the node kind, when
  there is one, is applied to the rebuilt node.  The functions below are that traversal
  with the handlers of \<^verbatim>\<open>PrintVisitor\<close>.  A \<^verbatim>\<open>ClassType\<close> node is not descended into;
  its handler reads \<^verbatim>\<open>node.cls.name\<close>, which raises \<^verbatim>\<open>AttributeError\<close> when the link
  cell is empty.  The heap maps the address in a link cell to the class object there; an
  address without an object is treated like an empty cell.
\<close>

type_synonym heap = "addr \<Rightarrow> Class option"

fun print_type :: "heap \<Rightarrow> pytype \<Rightarrow> error + string"
  and print_types :: "heap \<Rightarrow> pytype list \<Rightarrow> error + string list" where
  "print_type h (BasicType n) = Inr (SafeName n)"
| "print_type h (NativeType n) = Inr (SafeName n)"
| "print_type h (ClassType n c) =
     (case c of
        None \<Rightarrow> Inl AttributeError
      | Some a \<Rightarrow> (case h a of None \<Rightarrow> Inl AttributeError
                              | Some cl \<Rightarrow> Inr (SafeName (name cl))))"
| "print_type h (HomogeneousContainerType b e) =
     (case print_type h b of
        Inl err \<Rightarrow> Inl err
      | Inr bs \<Rightarrow> (case print_type h e of
                     Inl err \<Rightarrow> Inl err
                   | Inr es \<Rightarrow> Inr (VisitHomogeneousContainerType_print bs es)))"
| "print_type h (GenericType b ps) =
     (case print_type h b of
        Inl err \<Rightarrow> Inl err
      | Inr bs \<Rightarrow> (case print_types h ps of
                     Inl err \<Rightarrow> Inl err
                   | Inr pss \<Rightarrow> Inr (VisitGenericType_print bs pss)))"
| "print_type h (UnionType ts) =
     (case print_types h ts of Inl err \<Rightarrow> Inl err | Inr ss \<Rightarrow> Inr (VisitUnionType ss))"
| "print_type h (IntersectionType ts) =
     (case print_types h ts of Inl err \<Rightarrow> Inl err | Inr ss \<Rightarrow> Inr (VisitIntersectionType ss))"
| "print_types h [] = Inr []"
| "print_types h (t # ts) =
     (case print_type h t of
        Inl err \<Rightarrow> Inl err
      | Inr s \<Rightarrow> (case print_types h ts of Inl err \<Rightarrow> Inl err | Inr ss \<Rightarrow> Inr (s # ss)))"

text \<open>Visiting the elements of a tuple of nodes in order, stopping at the first error.\<close>

fun visit_list :: "('a \<Rightarrow> error + 'b) \<Rightarrow> 'a list \<Rightarrow> error + 'b list" where
  "visit_list f [] = Inr []"
| "visit_list f (x # xs) =
     (case f x of
        Inl err \<Rightarrow> Inl err
      | Inr y \<Rightarrow> (case visit_list f xs of Inl err \<Rightarrow> Inl err | Inr ys \<Rightarrow> Inr (y # ys)))"

definition print_Parameter :: "heap \<Rightarrow> Parameter \<Rightarrow> error + string" where
  "print_Parameter h p =
     (case print_type h (param_type p) of
        Inl err \<Rightarrow> Inl err
      | Inr ty \<Rightarrow> Inr (VisitParameter (param_name p) ty))"

definition print_Signature :: "heap \<Rightarrow> Signature \<Rightarrow> error + string" where
  "print_Signature h sg =
     (case visit_list (print_Parameter h) (params sg) of
        Inl err \<Rightarrow> Inl err
      | Inr ps \<Rightarrow>
          (case print_type h (return_type sg) of
             Inl err \<Rightarrow> Inl err
           | Inr rt \<Rightarrow>
               (case print_types h (exceptions sg) of
                  Inl err \<Rightarrow> Inl err
                | Inr excs \<Rightarrow> Inr (VisitSignature ps (has_optional sg) rt excs))))"

definition print_Function :: "heap \<Rightarrow> Function \<Rightarrow> error + string" where
  "print_Function h f =
     (case visit_list (print_Signature h) (signatures f) of
        Inl err \<Rightarrow> Inl err
      | Inr sigs \<Rightarrow> Inr (VisitFunction (func_name f) sigs))"

definition print_Constant :: "heap \<Rightarrow> Constant \<Rightarrow> error + string" where
  "print_Constant h c =
     (case print_type h (const_type c) of
        Inl err \<Rightarrow> Inl err
      | Inr ty \<Rightarrow> Inr (VisitConstant (const_name c) ty))"

definition print_TemplateItem :: "heap \<Rightarrow> TemplateItem \<Rightarrow> error + string" where
  "print_TemplateItem h t =
     (case print_type h (within_type t) of
        Inl err \<Rightarrow> Inl err
      | Inr w \<Rightarrow> Inr (VisitTemplateItem (tmpl_name t) w))"

definition print_template :: "heap \<Rightarrow> TemplateItem list option \<Rightarrow> error + string list option" where
  "print_template h tmpl =
     (case tmpl of
        None \<Rightarrow> Inr None
      | Some ts \<Rightarrow> (case visit_list (print_TemplateItem h) ts of
                     Inl err \<Rightarrow> Inl err
                   | Inr ss \<Rightarrow> Inr (Some ss)))"

definition print_Class :: "heap \<Rightarrow> Class \<Rightarrow> error + string" where
  "print_Class h c =
     (case print_template h (template c) of
        Inl err \<Rightarrow> Inl err
      | Inr tmpl \<Rightarrow>
          (case print_types h (parents c) of
             Inl err \<Rightarrow> Inl err
           | Inr prnts \<Rightarrow>
               (case visit_list (print_Constant h) (constants c) of
                  Inl err \<Rightarrow> Inl err
                | Inr consts \<Rightarrow>
                    (case visit_list (print_Function h) (methods c) of
                       Inl err \<Rightarrow> Inl err
                     | Inr meths \<Rightarrow> Inr (VisitClass (name c) tmpl prnts consts meths)))))"

definition print_TypeDeclUnit :: "heap \<Rightarrow> TypeDeclUnit \<Rightarrow> error + string" where
  "print_TypeDeclUnit h u =
     (case visit_list (print_Constant h) (unit_constants u) of
        Inl err \<Rightarrow> Inl err
      | Inr consts \<Rightarrow>
          (case visit_list (print_Function h) (unit_functions u) of
             Inl err \<Rightarrow> Inl err
           | Inr funs \<Rightarrow>
               (case visit_list (print_Class h) (unit_classes u) of
                  Inl err \<Rightarrow> Inl err
                | Inr clss \<Rightarrow> Inr (VisitTypeDeclUnit_print consts funs clss))))"

text \<open>The type an unannotated parameter or return value has: \<^verbatim>\<open>"object" is the default\<close>.\<close>

definition any_type :: pytype where
  "any_type = BasicType ''object''"

section \<open>StripSelf\<close>

definition StripSignature :: "Signature \<Rightarrow> Signature" where
  "StripSignature node = node\<lparr>params := drop 1 (params node)\<rparr>"

definition StripFunction :: "Function \<Rightarrow> Function" where
  "StripFunction node = node\<lparr>signatures := map StripSignature (signatures node)\<rparr>"

definition StripSelf_VisitClass :: "Class \<Rightarrow> Class" where
  "StripSelf_VisitClass node = node\<lparr>methods := map StripFunction (methods node)\<rparr>"

section \<open>Traversals that rebuild a tree\<close>

text \<open>
  Modelled from the spec: the traversal protocol of \<^verbatim>\<open>pytd\<close> for a visitor that has
  handlers on type expressions only.  Every node above the type expressions is rebuilt
  from its visited children and returned as it is.  Three forms are needed: a visitor
  that neither fails nor keeps state, one that may raise, and one that may raise and
  owns a state.  A raise stops the traversal at once; the state it has reached stays.
\<close>

definition map_Parameter :: "(pytype \<Rightarrow> pytype) \<Rightarrow> Parameter \<Rightarrow> Parameter" where
  "map_Parameter f p = p\<lparr>param_type := f (param_type p)\<rparr>"

definition map_Signature :: "(pytype \<Rightarrow> pytype) \<Rightarrow> Signature \<Rightarrow> Signature" where
  "map_Signature f sg =
     sg\<lparr>params := map (map_Parameter f) (params sg),
        return_type := f (return_type sg),
        exceptions := map f (exceptions sg)\<rparr>"

definition map_Function :: "(pytype \<Rightarrow> pytype) \<Rightarrow> Function \<Rightarrow> Function" where
  "map_Function f fn = fn\<lparr>signatures := map (map_Signature f) (signatures fn)\<rparr>"

definition map_Constant :: "(pytype \<Rightarrow> pytype) \<Rightarrow> Constant \<Rightarrow> Constant" where
  "map_Constant f c = c\<lparr>const_type := f (const_type c)\<rparr>"

definition map_TemplateItem :: "(pytype \<Rightarrow> pytype) \<Rightarrow> TemplateItem \<Rightarrow> TemplateItem" where
  "map_TemplateItem f t = t\<lparr>within_type := f (within_type t)\<rparr>"

definition map_Class :: "(pytype \<Rightarrow> pytype) \<Rightarrow> Class \<Rightarrow> Class" where
  "map_Class f c =
     c\<lparr>template := map_option (map (map_TemplateItem f)) (template c),
       parents := map f (parents c),
       constants := map (map_Constant f) (constants c),
       methods := map (map_Function f) (methods c)\<rparr>"

definition map_TypeDeclUnit :: "(pytype \<Rightarrow> pytype) \<Rightarrow> TypeDeclUnit \<Rightarrow> TypeDeclUnit" where
  "map_TypeDeclUnit f u =
     u\<lparr>unit_constants := map (map_Constant f) (unit_constants u),
       unit_functions := map (map_Function f) (unit_functions u),
       unit_classes := map (map_Class f) (unit_classes u)\<rparr>"

definition try_Parameter :: "(pytype \<Rightarrow> error + pytype) \<Rightarrow> Parameter \<Rightarrow> error + Parameter" where
  "try_Parameter g p =
     (case g (param_type p) of Inl err \<Rightarrow> Inl err | Inr t \<Rightarrow> Inr (p\<lparr>param_type := t\<rparr>))"

definition try_Signature :: "(pytype \<Rightarrow> error + pytype) \<Rightarrow> Signature \<Rightarrow> error + Signature" where
  "try_Signature g sg =
     (case visit_list (try_Parameter g) (params sg) of
        Inl err \<Rightarrow> Inl err
      | Inr ps \<Rightarrow>
          (case g (return_type sg) of
             Inl err \<Rightarrow> Inl err
           | Inr rt \<Rightarrow>
               (case visit_list g (exceptions sg) of
                  Inl err \<Rightarrow> Inl err
                | Inr excs \<Rightarrow> Inr (sg\<lparr>params := ps, return_type := rt, exceptions := excs\<rparr>))))"

definition try_Function :: "(pytype \<Rightarrow> error + pytype) \<Rightarrow> Function \<Rightarrow> error + Function" where
  "try_Function g fn =
     (case visit_list (try_Signature g) (signatures fn) of
        Inl err \<Rightarrow> Inl err
      | Inr sigs \<Rightarrow> Inr (fn\<lparr>signatures := sigs\<rparr>))"

definition try_Constant :: "(pytype \<Rightarrow> error + pytype) \<Rightarrow> Constant \<Rightarrow> error + Constant" where
  "try_Constant g c =
     (case g (const_type c) of Inl err \<Rightarrow> Inl err | Inr t \<Rightarrow> Inr (c\<lparr>const_type := t\<rparr>))"

definition try_TemplateItem :: "(pytype \<Rightarrow> error + pytype) \<Rightarrow> TemplateItem \<Rightarrow> error + TemplateItem" where
  "try_TemplateItem g t =
     (case g (within_type t) of Inl err \<Rightarrow> Inl err | Inr w \<Rightarrow> Inr (t\<lparr>within_type := w\<rparr>))"

definition try_template ::
  "(pytype \<Rightarrow> error + pytype) \<Rightarrow> TemplateItem list option \<Rightarrow> error + TemplateItem list option" where
  "try_template g tmpl =
     (case tmpl of
        None \<Rightarrow> Inr None
      | Some ts \<Rightarrow> (case visit_list (try_TemplateItem g) ts of
                     Inl err \<Rightarrow> Inl err
                   | Inr ts' \<Rightarrow> Inr (Some ts')))"

definition try_Class :: "(pytype \<Rightarrow> error + pytype) \<Rightarrow> Class \<Rightarrow> error + Class" where
  "try_Class g c =
     (case try_template g (template c) of
        Inl err \<Rightarrow> Inl err
      | Inr tmpl \<Rightarrow>
          (case visit_list g (parents c) of
             Inl err \<Rightarrow> Inl err
           | Inr prnts \<Rightarrow>
               (case visit_list (try_Constant g) (constants c) of
                  Inl err \<Rightarrow> Inl err
                | Inr consts \<Rightarrow>
                    (case visit_list (try_Function g) (methods c) of
                       Inl err \<Rightarrow> Inl err
                     | Inr meths \<Rightarrow>
                         Inr (c\<lparr>template := tmpl, parents := prnts,
                                constants := consts, methods := meths\<rparr>)))))"

fun visit_list_st :: "('a \<Rightarrow> 's \<Rightarrow> (error + 'b) \<times> 's) \<Rightarrow> 'a list \<Rightarrow> 's \<Rightarrow> (error + 'b list) \<times> 's" where
  "visit_list_st f [] s = (Inr [], s)"
| "visit_list_st f (x # xs) s =
     (case f x s of
        (Inl err, s1) \<Rightarrow> (Inl err, s1)
      | (Inr y, s1) \<Rightarrow>
          (case visit_list_st f xs s1 of
             (Inl err, s2) \<Rightarrow> (Inl err, s2)
           | (Inr ys, s2) \<Rightarrow> (Inr (y # ys), s2)))"

definition visit_Parameter ::
  "(pytype \<Rightarrow> 's \<Rightarrow> (error + pytype) \<times> 's) \<Rightarrow> Parameter \<Rightarrow> 's \<Rightarrow> (error + Parameter) \<times> 's" where
  "visit_Parameter tv p s =
     (case tv (param_type p) s of
        (Inl err, s1) \<Rightarrow> (Inl err, s1)
      | (Inr t, s1) \<Rightarrow> (Inr (p\<lparr>param_type := t\<rparr>), s1))"

definition visit_Signature ::
  "(pytype \<Rightarrow> 's \<Rightarrow> (error + pytype) \<times> 's) \<Rightarrow> Signature \<Rightarrow> 's \<Rightarrow> (error + Signature) \<times> 's" where
  "visit_Signature tv sg s =
     (case visit_list_st (visit_Parameter tv) (params sg) s of
        (Inl err, s1) \<Rightarrow> (Inl err, s1)
      | (Inr ps, s1) \<Rightarrow>
          (case tv (return_type sg) s1 of
             (Inl err, s2) \<Rightarrow> (Inl err, s2)
           | (Inr rt, s2) \<Rightarrow>
               (case visit_list_st tv (exceptions sg) s2 of
                  (Inl err, s3) \<Rightarrow> (Inl err, s3)
                | (Inr excs, s3) \<Rightarrow>
                    (Inr (sg\<lparr>params := ps, return_type := rt, exceptions := excs\<rparr>), s3))))"

definition visit_Function ::
  "(pytype \<Rightarrow> 's \<Rightarrow> (error + pytype) \<times> 's) \<Rightarrow> Function \<Rightarrow> 's \<Rightarrow> (error + Function) \<times> 's" where
  "visit_Function tv fn s =
     (case visit_list_st (visit_Signature tv) (signatures fn) s of
        (Inl err, s1) \<Rightarrow> (Inl err, s1)
      | (Inr sigs, s1) \<Rightarrow> (Inr (fn\<lparr>signatures := sigs\<rparr>), s1))"

definition visit_Constant ::
  "(pytype \<Rightarrow> 's \<Rightarrow> (error + pytype) \<times> 's) \<Rightarrow> Constant \<Rightarrow> 's \<Rightarrow> (error + Constant) \<times> 's" where
  "visit_Constant tv c s =
     (case tv (const_type c) s of
        (Inl err, s1) \<Rightarrow> (Inl err, s1)
      | (Inr t, s1) \<Rightarrow> (Inr (c\<lparr>const_type := t\<rparr>), s1))"

definition visit_TemplateItem ::
  "(pytype \<Rightarrow> 's \<Rightarrow> (error + pytype) \<times> 's) \<Rightarrow> TemplateItem \<Rightarrow> 's \<Rightarrow> (error + TemplateItem) \<times> 's" where
  "visit_TemplateItem tv t s =
     (case tv (within_type t) s of
        (Inl err, s1) \<Rightarrow> (Inl err, s1)
      | (Inr w, s1) \<Rightarrow> (Inr (t\<lparr>within_type := w\<rparr>), s1))"

definition visit_template ::
  "(pytype \<Rightarrow> 's \<Rightarrow> (error + pytype) \<times> 's) \<Rightarrow> TemplateItem list option \<Rightarrow> 's
     \<Rightarrow> (error + TemplateItem list option) \<times> 's" where
  "visit_template tv tmpl s =
     (case tmpl of
        None \<Rightarrow> (Inr None, s)
      | Some ts \<Rightarrow> (case visit_list_st (visit_TemplateItem tv) ts s of
                     (Inl err, s1) \<Rightarrow> (Inl err, s1)
                   | (Inr ts', s1) \<Rightarrow> (Inr (Some ts'), s1)))"

definition visit_Class ::
  "(pytype \<Rightarrow> 's \<Rightarrow> (error + pytype) \<times> 's) \<Rightarrow> Class \<Rightarrow> 's \<Rightarrow> (error + Class) \<times> 's" where
  "visit_Class tv c s =
     (case visit_template tv (template c) s of
        (Inl err, s1) \<Rightarrow> (Inl err, s1)
      | (Inr tmpl, s1) \<Rightarrow>
          (case visit_list_st tv (parents c) s1 of
             (Inl err, s2) \<Rightarrow> (Inl err, s2)
           | (Inr prnts, s2) \<Rightarrow>
               (case visit_list_st (visit_Constant tv) (constants c) s2 of
                  (Inl err, s3) \<Rightarrow> (Inl err, s3)
                | (Inr consts, s3) \<Rightarrow>
                    (case visit_list_st (visit_Function tv) (methods c) s3 of
                       (Inl err, s4) \<Rightarrow> (Inl err, s4)
                     | (Inr meths, s4) \<Rightarrow>
                         (Inr (c\<lparr>template := tmpl, parents := prnts,
                                 constants := consts, methods := meths\<rparr>), s4)))))"

definition visit_TypeDeclUnit ::
  "(pytype \<Rightarrow> 's \<Rightarrow> (error + pytype) \<times> 's) \<Rightarrow> TypeDeclUnit \<Rightarrow> 's \<Rightarrow> (error + TypeDeclUnit) \<times> 's" where
  "visit_TypeDeclUnit tv u s =
     (case visit_list_st (visit_Constant tv) (unit_constants u) s of
        (Inl err, s1) \<Rightarrow> (Inl err, s1)
      | (Inr consts, s1) \<Rightarrow>
          (case visit_list_st (visit_Function tv) (unit_functions u) s1 of
             (Inl err, s2) \<Rightarrow> (Inl err, s2)
           | (Inr funs, s2) \<Rightarrow>
               (case visit_list_st (visit_Class tv) (unit_classes u) s2 of
                  (Inl err, s3) \<Rightarrow> (Inl err, s3)
                | (Inr clss, s3) \<Rightarrow>
                    (Inr (u\<lparr>unit_constants := consts, unit_functions := funs,
                            unit_classes := clss\<rparr>), s3))))"

section \<open>Symbol table\<close>

text \<open>
  Modelled from the spec: \<^verbatim>\<open>Lookup(name)\<close> of a module, which is defined in \<^verbatim>\<open>pytd\<close>.
  It returns the class of that name in the module's class list and fails when there is
  none; the visitors document the failure as \<^verbatim>\<open>KeyError\<close>.  The first form looks a class
  up in a module given by value.  The second looks it up in a module whose classes are
  objects on the heap and returns the address of the class object.
\<close>

definition Lookup :: "TypeDeclUnit \<Rightarrow> string \<Rightarrow> error + Class" where
  "Lookup u n =
     (case find (\<lambda>c. name c = n) (unit_classes u) of
        None \<Rightarrow> Inl (KeyError n)
      | Some c \<Rightarrow> Inr c)"

definition has_name :: "heap \<Rightarrow> string \<Rightarrow> addr \<Rightarrow> bool" where
  "has_name h n a = (case h a of None \<Rightarrow> False | Some c \<Rightarrow> name c = n)"

definition Lookup_addr :: "heap \<Rightarrow> addr list \<Rightarrow> string \<Rightarrow> error + addr" where
  "Lookup_addr h as n =
     (case find (has_name h n) as of
        None \<Rightarrow> Inl (KeyError n)
      | Some a \<Rightarrow> Inr a)"

section \<open>LookupClasses and FillInClasses\<close>

text \<open>
  \<^verbatim>\<open>LookupClasses.VisitBasicType\<close> turns a \<^verbatim>\<open>BasicType\<close> into a \<^verbatim>\<open>ClassType\<close> of the same
  name with an empty link cell.  The visitor has no other handler below the module.
\<close>

fun lookup_type :: "pytype \<Rightarrow> pytype" where
  "lookup_type (BasicType n) = ClassType n None"
| "lookup_type (NativeType n) = NativeType n"
| "lookup_type (ClassType n c) = ClassType n c"
| "lookup_type (HomogeneousContainerType b e) =
     HomogeneousContainerType (lookup_type b) (lookup_type e)"
| "lookup_type (GenericType b ps) = GenericType (lookup_type b) (map lookup_type ps)"
| "lookup_type (UnionType ts) = UnionType (map lookup_type ts)"
| "lookup_type (IntersectionType ts) = IntersectionType (map lookup_type ts)"

text \<open>
  \<^verbatim>\<open>FillInClasses.VisitClassType\<close>: \<^verbatim>\<open>node.cls = self.symbol_table.Lookup(node.name)\<close>,
  in place.  The argument \<open>look\<close> is the lookup of the visitor's symbol table.
\<close>

fun fill_type :: "(string \<Rightarrow> error + addr) \<Rightarrow> pytype \<Rightarrow> error + pytype"
  and fill_types :: "(string \<Rightarrow> error + addr) \<Rightarrow> pytype list \<Rightarrow> error + pytype list" where
  "fill_type look (BasicType n) = Inr (BasicType n)"
| "fill_type look (NativeType n) = Inr (NativeType n)"
| "fill_type look (ClassType n c) =
     (case look n of Inl err \<Rightarrow> Inl err | Inr a \<Rightarrow> Inr (ClassType n (Some a)))"
| "fill_type look (HomogeneousContainerType b e) =
     (case fill_type look b of
        Inl err \<Rightarrow> Inl err
      | Inr b' \<Rightarrow> (case fill_type look e of
                     Inl err \<Rightarrow> Inl err
                   | Inr e' \<Rightarrow> Inr (HomogeneousContainerType b' e')))"
| "fill_type look (GenericType b ps) =
     (case fill_type look b of
        Inl err \<Rightarrow> Inl err
      | Inr b' \<Rightarrow> (case fill_types look ps of
                     Inl err \<Rightarrow> Inl err
                   | Inr ps' \<Rightarrow> Inr (GenericType b' ps')))"
| "fill_type look (UnionType ts) =
     (case fill_types look ts of Inl err \<Rightarrow> Inl err | Inr ts' \<Rightarrow> Inr (UnionType ts'))"
| "fill_type look (IntersectionType ts) =
     (case fill_types look ts of Inl err \<Rightarrow> Inl err | Inr ts' \<Rightarrow> Inr (IntersectionType ts'))"
| "fill_types look [] = Inr []"
| "fill_types look (t # ts) =
     (case fill_type look t of
        Inl err \<Rightarrow> Inl err
      | Inr t' \<Rightarrow> (case fill_types look ts of Inl err \<Rightarrow> Inl err | Inr ts' \<Rightarrow> Inr (t' # ts')))"

text \<open>
  Modelled from the spec: the class objects of a module and their identity.  The first
  traversal builds every class object before any link is set, and the second traversal
  writes the link cells in place, so that a class object keeps its identity.  A module
  whose classes are objects holds their addresses in its class list.
\<close>

record UnitObj =
  obj_constants :: "Constant list"
  obj_functions :: "Function list"
  obj_classes :: "addr list"

text \<open>The class objects built by the first traversal, placed from address \<open>a0\<close> on.\<close>

definition alloc :: "heap \<Rightarrow> addr \<Rightarrow> Class list \<Rightarrow> heap" where
  "alloc h a0 cs =
     (\<lambda>a. if a0 \<le> a \<and> a < a0 + length cs then Some (cs ! (a - a0)) else h a)"

text \<open>
  The second traversal over the class objects of the module.  Each class object is
  updated where it is, so its address stays; the symbol table is the module itself,
  read from the heap as it is at that moment.
\<close>

fun fill_classes :: "addr list \<Rightarrow> addr list \<Rightarrow> heap \<Rightarrow> error + heap" where
  "fill_classes all [] h = Inr h"
| "fill_classes all (a # as) h =
     (case h a of
        None \<Rightarrow> Inl AttributeError
      | Some c \<Rightarrow>
          (case try_Class (fill_type (Lookup_addr h all)) c of
             Inl err \<Rightarrow> Inl err
           | Inr c' \<Rightarrow> fill_classes all as (h(a \<mapsto> c'))))"

text \<open>
  \<^verbatim>\<open>LookupClasses\<close> on a module: the children are rebuilt with \<^verbatim>\<open>VisitBasicType\<close>, then
  \<^verbatim>\<open>VisitTypeDeclUnit\<close> runs \<^verbatim>\<open>unit.Visit(FillInClasses(unit))\<close> on the rebuilt module and
  returns that module.
\<close>

definition LookupClasses :: "heap \<Rightarrow> addr \<Rightarrow> TypeDeclUnit \<Rightarrow> error + (UnitObj \<times> heap)" where
  "LookupClasses h0 a0 u =
     (let unit = map_TypeDeclUnit lookup_type u;
          addrs = [a0 ..< a0 + length (unit_classes unit)];
          h1 = alloc h0 a0 (unit_classes unit)
      in case visit_list (try_Constant (fill_type (Lookup_addr h1 addrs))) (unit_constants unit) of
           Inl err \<Rightarrow> Inl err
         | Inr consts \<Rightarrow>
             (case visit_list (try_Function (fill_type (Lookup_addr h1 addrs))) (unit_functions unit) of
                Inl err \<Rightarrow> Inl err
              | Inr funs \<Rightarrow>
                  (case fill_classes addrs addrs h1 of
                     Inl err \<Rightarrow> Inl err
                   | Inr h2 \<Rightarrow>
                       Inr (\<lparr>obj_constants = consts, obj_functions = funs,
                             obj_classes = addrs\<rparr>, h2))))"

section \<open>ReplaceType\<close>

text \<open>
  \<^verbatim>\<open>ReplaceType.VisitBasicType\<close> is the only handler: a \<^verbatim>\<open>BasicType\<close> whose name is a key
  of the mapping is replaced by the mapped type, which is not visited again.
\<close>

fun replace_type :: "(string \<rightharpoonup> pytype) \<Rightarrow> pytype \<Rightarrow> pytype" where
  "replace_type m (BasicType n) = (case m n of None \<Rightarrow> BasicType n | Some t \<Rightarrow> t)"
| "replace_type m (NativeType n) = NativeType n"
| "replace_type m (ClassType n c) = ClassType n c"
| "replace_type m (HomogeneousContainerType b e) =
     HomogeneousContainerType (replace_type m b) (replace_type m e)"
| "replace_type m (GenericType b ps) = GenericType (replace_type m b) (map (replace_type m) ps)"
| "replace_type m (UnionType ts) = UnionType (map (replace_type m) ts)"
| "replace_type m (IntersectionType ts) = IntersectionType (map (replace_type m) ts)"

section \<open>InstantiateTemplates\<close>

text \<open>
  \<^verbatim>\<open>self._instantiated_classes\<close> is a dictionary from names to classes.  It is kept as
  an association list in the order of insertion; a key is never stored twice.  The order
  in which \<^verbatim>\<open>values()\<close> lists the classes is left open by the dictionary; the list here
  has them in the order of insertion.
\<close>

type_synonym cache = "(string \<times> Class) list"

text \<open>
  \<^verbatim>\<open>_InstantiateClass\<close>.  Reading \<^verbatim>\<open>base_type.containing_type\<close> raises \<^verbatim>\<open>AttributeError\<close> on
  a node that is not a \<^verbatim>\<open>BasicType\<close>, and iterating over \<^verbatim>\<open>cls.template\<close> raises
  \<^verbatim>\<open>TypeError\<close> when it is \<^verbatim>\<open>None\<close>.  \<^verbatim>\<open>zip\<close> stops at the shorter list, and a later pair of
  a dictionary comprehension overrides an earlier one of the same key.
\<close>

definition InstantiateClass :: "TypeDeclUnit \<Rightarrow> string \<Rightarrow> pytype \<Rightarrow> pytype list \<Rightarrow> error + Class" where
  "InstantiateClass symbol_table nm base_type element_types =
     (case base_type of
        BasicType ct \<Rightarrow>
          (case Lookup symbol_table ct of
             Inl err \<Rightarrow> Inl err
           | Inr cls \<Rightarrow>
               (case template cls of
                  None \<Rightarrow> Inl TypeError
                | Some ts \<Rightarrow>
                    (let names = map tmpl_name ts;
                         mapping = map_of (rev (zip names element_types))
                     in Inr (map_Class (replace_type mapping) (cls\<lparr>name := nm, template := None\<rparr>)))))
      | _ \<Rightarrow> Inl AttributeError)"

text \<open>
  \<^verbatim>\<open>VisitHomogeneousContainerType\<close>, applied to a node whose two children have been
  visited already.
\<close>

definition VisitHomogeneousContainerType ::
  "heap \<Rightarrow> TypeDeclUnit \<Rightarrow> pytype \<Rightarrow> pytype \<Rightarrow> cache \<Rightarrow> (error + pytype) \<times> cache" where
  "VisitHomogeneousContainerType h symbol_table b e st =
     (case print_type h b of
        Inl err \<Rightarrow> (Inl err, st)
      | Inr base_type_name \<Rightarrow>
          (case print_type h e of
             Inl err \<Rightarrow> (Inl err, st)
           | Inr element_type_name \<Rightarrow>
               (let nm = base_type_name @ ''<'' @ element_type_name @ ''>''
                in if map_of st nm = None
                   then (case InstantiateClass symbol_table nm b [e] of
                           Inl err \<Rightarrow> (Inl err, st)
                         | Inr c \<Rightarrow> (Inr (BasicType nm), st @ [(nm, c)]))
                   else (Inr (BasicType nm), st))))"

text \<open>
  The traversal of a type expression with the handlers of \<^verbatim>\<open>InstantiateTemplates\<close>;
  \<^verbatim>\<open>VisitGenericType\<close> raises \<^verbatim>\<open>NotImplementedError\<close> once the children have been visited.
\<close>

fun inst_type :: "heap \<Rightarrow> TypeDeclUnit \<Rightarrow> pytype \<Rightarrow> cache \<Rightarrow> (error + pytype) \<times> cache"
  and inst_types :: "heap \<Rightarrow> TypeDeclUnit \<Rightarrow> pytype list \<Rightarrow> cache \<Rightarrow> (error + pytype list) \<times> cache" where
  "inst_type h u (BasicType n) st = (Inr (BasicType n), st)"
| "inst_type h u (NativeType n) st = (Inr (NativeType n), st)"
| "inst_type h u (ClassType n c) st = (Inr (ClassType n c), st)"
| "inst_type h u (HomogeneousContainerType b e) st =
     (case inst_type h u b st of
        (Inl err, st1) \<Rightarrow> (Inl err, st1)
      | (Inr b', st1) \<Rightarrow>
          (case inst_type h u e st1 of
             (Inl err, st2) \<Rightarrow> (Inl err, st2)
           | (Inr e', st2) \<Rightarrow> VisitHomogeneousContainerType h u b' e' st2))"
| "inst_type h u (GenericType b ps) st =
     (case inst_type h u b st of
        (Inl err, st1) \<Rightarrow> (Inl err, st1)
      | (Inr b', st1) \<Rightarrow>
          (case inst_types h u ps st1 of
             (Inl err, st2) \<Rightarrow> (Inl err, st2)
           | (Inr ps', st2) \<Rightarrow> (Inl NotImplementedError, st2)))"
| "inst_type h u (UnionType ts) st =
     (case inst_types h u ts st of
        (Inl err, st1) \<Rightarrow> (Inl err, st1)
      | (Inr ts', st1) \<Rightarrow> (Inr (UnionType ts'), st1))"
| "inst_type h u (IntersectionType ts) st =
     (case inst_types h u ts st of
        (Inl err, st1) \<Rightarrow> (Inl err, st1)
      | (Inr ts', st1) \<Rightarrow> (Inr (IntersectionType ts'), st1))"
| "inst_types h u [] st = (Inr [], st)"
| "inst_types h u (t # ts) st =
     (case inst_type h u t st of
        (Inl err, st1) \<Rightarrow> (Inl err, st1)
      | (Inr t', st1) \<Rightarrow>
          (case inst_types h u ts st1 of
             (Inl err, st2) \<Rightarrow> (Inl err, st2)
           | (Inr ts', st2) \<Rightarrow> (Inr (t' # ts'), st2)))"

text \<open>\<^verbatim>\<open>InstantiateTemplates.VisitTypeDeclUnit\<close>, on the module rebuilt from its visited children.\<close>

definition VisitTypeDeclUnit :: "TypeDeclUnit \<Rightarrow> cache \<Rightarrow> TypeDeclUnit" where
  "VisitTypeDeclUnit node st =
     (let old_classes = filter (\<lambda>c. template c = None) (unit_classes node);
          new_classes = map snd st
      in node\<lparr>unit_classes := old_classes @ new_classes\<rparr>)"

text \<open>
  One run: a new visitor starts with an empty dictionary and visits the module.  The
  result is paired with the dictionary as the run leaves it.
\<close>

definition InstantiateTemplates ::
  "heap \<Rightarrow> TypeDeclUnit \<Rightarrow> TypeDeclUnit \<Rightarrow> (error + TypeDeclUnit) \<times> cache" where
  "InstantiateTemplates h symbol_table m =
     (case visit_TypeDeclUnit (inst_type h symbol_table) m [] of
        (Inl err, st) \<Rightarrow> (Inl err, st)
      | (Inr node, st) \<Rightarrow> (Inr (VisitTypeDeclUnit node st), st))"

section \<open>Reading a tree\<close>

text \<open>
  The type expressions a node holds, in the order the traversal visits them, the
  \<^verbatim>\<open>ClassType\<close> nodes of a type expression with their link cells, and the names a type
  expression refers to through \<^verbatim>\<open>BasicType\<close> and \<^verbatim>\<open>ClassType\<close> nodes.
\<close>

definition types_Signature :: "Signature \<Rightarrow> pytype list" where
  "types_Signature sg = map param_type (params sg) @ [return_type sg] @ exceptions sg"

definition types_Function :: "Function \<Rightarrow> pytype list" where
  "types_Function fn = concat (map types_Signature (signatures fn))"

definition types_template :: "TemplateItem list option \<Rightarrow> pytype list" where
  "types_template tmpl = (case tmpl of None \<Rightarrow> [] | Some ts \<Rightarrow> map within_type ts)"

definition types_Class :: "Class \<Rightarrow> pytype list" where
  "types_Class c =
     types_template (template c) @ parents c @ map const_type (constants c)
       @ concat (map types_Function (methods c))"

definition types_TypeDeclUnit :: "TypeDeclUnit \<Rightarrow> pytype list" where
  "types_TypeDeclUnit u =
     map const_type (unit_constants u) @ concat (map types_Function (unit_functions u))
       @ concat (map types_Class (unit_classes u))"

fun class_refs :: "pytype \<Rightarrow> (string \<times> addr option) list" where
  "class_refs (BasicType n) = []"
| "class_refs (NativeType n) = []"
| "class_refs (ClassType n c) = [(n, c)]"
| "class_refs (HomogeneousContainerType b e) = class_refs b @ class_refs e"
| "class_refs (GenericType b ps) = class_refs b @ concat (map class_refs ps)"
| "class_refs (UnionType ts) = concat (map class_refs ts)"
| "class_refs (IntersectionType ts) = concat (map class_refs ts)"

fun ref_names :: "pytype \<Rightarrow> string list" where
  "ref_names (BasicType n) = [n]"
| "ref_names (NativeType n) = []"
| "ref_names (ClassType n c) = [n]"
| "ref_names (HomogeneousContainerType b e) = ref_names b @ ref_names e"
| "ref_names (GenericType b ps) = ref_names b @ concat (map ref_names ps)"
| "ref_names (UnionType ts) = concat (map ref_names ts)"
| "ref_names (IntersectionType ts) = concat (map ref_names ts)"

text \<open>
  The substitution of one template parameter as the amended claim C3 words it: every
  \<^verbatim>\<open>BasicType\<close> node named \<open>T\<close> becomes the element type, and every other leaf, a
  \<^verbatim>\<open>ClassType\<close> named \<open>T\<close> included, stays.
\<close>

fun subst_named :: "string \<Rightarrow> pytype \<Rightarrow> pytype \<Rightarrow> pytype" where
  "subst_named T elem (BasicType n) = (if n = T then elem else BasicType n)"
| "subst_named T elem (NativeType n) = NativeType n"
| "subst_named T elem (ClassType n c) = ClassType n c"
| "subst_named T elem (HomogeneousContainerType b e) =
     HomogeneousContainerType (subst_named T elem b) (subst_named T elem e)"
| "subst_named T elem (GenericType b ps) =
     GenericType (subst_named T elem b) (map (subst_named T elem) ps)"
| "subst_named T elem (UnionType ts) = UnionType (map (subst_named T elem) ts)"
| "subst_named T elem (IntersectionType ts) = IntersectionType (map (subst_named T elem) ts)"

text \<open>Whether a type expression has a \<^verbatim>\<open>GenericType\<close> node somewhere.\<close>

fun has_generic :: "pytype \<Rightarrow> bool" where
  "has_generic (BasicType n) = False"
| "has_generic (NativeType n) = False"
| "has_generic (ClassType n c) = False"
| "has_generic (HomogeneousContainerType b e) = (has_generic b \<or> has_generic e)"
| "has_generic (GenericType b ps) = True"
| "has_generic (UnionType ts) = list_ex has_generic ts"
| "has_generic (IntersectionType ts) = list_ex has_generic ts"

section \<open>Example modules\<close>

text \<open>
  The end-to-end example of the specification: a class \<^verbatim>\<open>Box<T>\<close> with a field of type
  \<^verbatim>\<open>T\<close>, a class without template, and two usages of \<^verbatim>\<open>Box<int>\<close>.
\<close>

definition box_class :: Class where
  "box_class =
     \<lparr>name = ''Box'',
      template = Some [\<lparr>tmpl_name = ''T'', within_type = BasicType ''object''\<rparr>],
      parents = [],
      constants = [\<lparr>const_name = ''item'', const_type = BasicType ''T''\<rparr>],
      methods = []\<rparr>"

definition plain_class :: Class where
  "plain_class =
     \<lparr>name = ''Plain'', template = None, parents = [],
      constants = [\<lparr>const_name = ''n'', const_type = BasicType ''int''\<rparr>], methods = []\<rparr>"

definition box_int_class :: Class where
  "box_int_class =
     \<lparr>name = ''Box<int>'', template = None, parents = [],
      constants = [\<lparr>const_name = ''item'', const_type = BasicType ''int''\<rparr>], methods = []\<rparr>"

definition box_module :: TypeDeclUnit where
  "box_module =
     \<lparr>unit_constants =
        [\<lparr>const_name = ''x'',
          const_type = HomogeneousContainerType (BasicType ''Box'') (BasicType ''int'')\<rparr>,
         \<lparr>const_name = ''y'',
          const_type = HomogeneousContainerType (BasicType ''Box'') (BasicType ''int'')\<rparr>],
      unit_functions = [],
      unit_classes = [box_class, plain_class]\<rparr>"

text \<open>A module that uses \<^verbatim>\<open>Box<int>\<close> and then a generic type of two arguments.\<close>

definition generic_module :: TypeDeclUnit where
  "generic_module =
     \<lparr>unit_constants =
        [\<lparr>const_name = ''x'',
          const_type = HomogeneousContainerType (BasicType ''Box'') (BasicType ''int'')\<rparr>,
         \<lparr>const_name = ''d'',
          const_type = GenericType (BasicType ''dict'') [BasicType ''int'', BasicType ''str'']\<rparr>],
      unit_functions = [],
      unit_classes = [box_class]\<rparr>"

text \<open>
  The invariant of the dictionary of instantiated classes: no key occurs twice, and every
  class is stored under its own name and has no template.
\<close>

definition cache_ok :: "cache \<Rightarrow> bool" where
  "cache_ok st = (distinct (map fst st) \<and> (\<forall>(k, c) \<in> set st. name c = k \<and> template c = None))"

text \<open>
  The names a module refers to, and the type expressions of a module whose classes are
  objects on the heap.
\<close>

definition unit_ref_names :: "TypeDeclUnit \<Rightarrow> string list" where
  "unit_ref_names u = concat (map ref_names (types_TypeDeclUnit u))"

definition types_UnitObj :: "heap \<Rightarrow> UnitObj \<Rightarrow> pytype list" where
  "types_UnitObj h uo =
     map const_type (obj_constants uo) @ concat (map types_Function (obj_functions uo))
       @ concat (map (\<lambda>a. case h a of None \<Rightarrow> [] | Some c \<Rightarrow> types_Class c) (obj_classes uo))"


definition foo_module :: TypeDeclUnit where
  "foo_module =
     \<lparr>unit_constants = [], unit_functions = [],
      unit_classes =
        [\<lparr>name = ''A'', template = None, parents = [],
          constants = [\<lparr>const_name = ''f'', const_type = BasicType ''Foo''\<rparr>], methods = []\<rparr>]\<rparr>"

section \<open>Rendering: properties\<close>

lemma join_snoc: "xs \<noteq> [] \<Longrightarrow> join sep (xs @ [y]) = join sep xs @ sep @ y"
  by (induction sep xs rule: join.induct) auto

lemma VisitClass_no_methods:
  "\<exists>pre. VisitClass nm tmpl prnts cs [] = pre @ [CHR 0x0A] @ INDENT @ ''pass'' @ [CHR 0x0A]"
proof -
  define header where "header = ''class '' @ SafeName nm
    @ (case tmpl of None \<Rightarrow> '''' | Some ts \<Rightarrow> if ts \<noteq> [] then ''<'' @ join '', '' ts @ ''>'' else '''')
    @ (if prnts \<noteq> [] then ''('' @ join '', '' prnts @ '')'' else '''') @ '':''"
  have "VisitClass nm tmpl prnts cs []
      = join [CHR 0x0A] ((header # map (\<lambda>m. INDENT @ m) cs) @ [INDENT @ ''pass'']) @ [CHR 0x0A]"
    by (simp add: VisitClass_def Let_def header_def)
  also have "\<dots> = join [CHR 0x0A] (header # map (\<lambda>m. INDENT @ m) cs)
                   @ [CHR 0x0A] @ INDENT @ ''pass'' @ [CHR 0x0A]"
    by (subst join_snoc) simp_all
  finally show ?thesis by blast
qed

text \<open>
  Claim C10.  A class without methods is rendered with an indented \<^verbatim>\<open>pass\<close> line as
  the last line of its body, whatever constants it has: the rendered class ends with a
  newline, four blanks, \<^verbatim>\<open>pass\<close> and a newline.
\<close>

theorem class_without_methods_ends_with_pass:
  assumes "methods c = []" and "print_Class h c = Inr s"
  shows "\<exists>pre. s = pre @ [CHR 0x0A] @ INDENT @ ''pass'' @ [CHR 0x0A]"
proof -
  from assms have "\<exists>tmpl prnts cs. s = VisitClass (name c) tmpl prnts cs []"
    by (auto simp: print_Class_def split: sum.splits)
  then show ?thesis using VisitClass_no_methods by metis
qed

theorem class_without_methods_ends_with_pass_witness:
  "print_Class (\<lambda>_. None)
     \<lparr>name = ''A'', template = None, parents = [],
      constants = [\<lparr>const_name = ''x'', const_type = BasicType ''int''\<rparr>], methods = []\<rparr>
   = Inr (''class A:'' @ [CHR 0x0A] @ ''    x: int'' @ [CHR 0x0A] @ ''    pass'' @ [CHR 0x0A])
   \<and> (\<exists>pre. ''class A:'' @ [CHR 0x0A] @ ''    x: int'' @ [CHR 0x0A] @ ''    pass'' @ [CHR 0x0A]
        = pre @ [CHR 0x0A] @ INDENT @ ''pass'' @ [CHR 0x0A])"
proof -
  let ?c = "\<lparr>name = ''A'', template = None, parents = [],
      constants = [\<lparr>const_name = ''x'', const_type = BasicType ''int''\<rparr>], methods = []\<rparr>"
  have p: "print_Class (\<lambda>_. None) ?c
    = Inr (''class A:'' @ [CHR 0x0A] @ ''    x: int'' @ [CHR 0x0A] @ ''    pass'' @ [CHR 0x0A])"
    by (simp add: print_Class_def print_template_def print_Constant_def VisitClass_def
        VisitConstant_def SafeName_def is_letter_def is_word_char_def INDENT_def)
  have m: "methods ?c = []" by simp
  from class_without_methods_ends_with_pass [OF m p] p show ?thesis by simp
qed

text \<open>
  Claim C9, as amended.  The universal type renders as \<^verbatim>\<open>object\<close>.  A parameter is
  rendered as its bare name exactly when the rendered text of its type is \<^verbatim>\<open>object\<close>,
  and as \<^verbatim>\<open>name: Type\<close> otherwise; a signature has no \<^verbatim>\<open>-> ReturnType\<close> suffix exactly
  when the rendered text of its return type is \<^verbatim>\<open>object\<close>.  The comparison is on the
  rendered text, so a type expression other than the universal type that renders as
  \<^verbatim>\<open>object\<close> loses its annotation too.
\<close>

theorem annotation_omitted_iff_text_is_object:
  "print_type h any_type = Inr ''object''
   \<and> (print_type h (param_type p) = Inr ty \<longrightarrow>
        print_Parameter h p
          = Inr (if ty = ''object'' then param_name p else param_name p @ '': '' @ ty))
   \<and> (visit_list (print_Parameter h) (params sg) = Inr ps
        \<and> print_type h (return_type sg) = Inr rt
        \<and> print_types h (exceptions sg) = Inr excs \<longrightarrow>
        print_Signature h sg
          = Inr (''('' @ join '', '' (ps @ (if has_optional sg then [''...''] else [])) @ '')''
                 @ (if rt = ''object'' then '''' else '' -> '' @ rt)
                 @ (if excs = [] then '''' else '' raises '' @ join '', '' excs)))"
  by (simp add: any_type_def SafeName_def is_letter_def is_word_char_def print_Parameter_def
      VisitParameter_def print_Signature_def VisitSignature_def Let_def)

theorem annotation_omitted_iff_text_is_object_witness:
  "print_type (\<lambda>_. None) (param_type \<lparr>param_name = ''x'', param_type = BasicType ''int''\<rparr>) = Inr ''int''
   \<and> print_Parameter (\<lambda>_. None) \<lparr>param_name = ''x'', param_type = BasicType ''int''\<rparr> = Inr ''x: int''
   \<and> visit_list (print_Parameter (\<lambda>_. None))
        (params \<lparr>params = [\<lparr>param_name = ''x'', param_type = any_type\<rparr>], has_optional = False,
                 return_type = BasicType ''int'', exceptions = []\<rparr>) = Inr [''x'']
   \<and> print_Signature (\<lambda>_. None)
        \<lparr>params = [\<lparr>param_name = ''x'', param_type = any_type\<rparr>], has_optional = False,
         return_type = BasicType ''int'', exceptions = []\<rparr> = Inr ''(x) -> int''"
  using annotation_omitted_iff_text_is_object
    [of "\<lambda>_. None" "\<lparr>param_name = ''x'', param_type = BasicType ''int''\<rparr>" "''int''"
        "\<lparr>params = [\<lparr>param_name = ''x'', param_type = any_type\<rparr>], has_optional = False,
         return_type = BasicType ''int'', exceptions = []\<rparr>" "[''x'']" "''int''" "[]"]
  by (simp add: any_type_def SafeName_def is_letter_def is_word_char_def print_Parameter_def
      VisitParameter_def)

theorem annotation_omitted_for_other_type_counterexample:
  "UnionType [BasicType ''object''] \<noteq> any_type
   \<and> print_Parameter (\<lambda>_. None)
        \<lparr>param_name = ''x'', param_type = UnionType [BasicType ''object'']\<rparr> = Inr ''x''
   \<and> print_Signature (\<lambda>_. None)
        \<lparr>params = [], has_optional = False,
         return_type = UnionType [BasicType ''object''], exceptions = []\<rparr> = Inr ''()''"
  by (simp add: any_type_def SafeName_def is_letter_def is_word_char_def print_Parameter_def
      VisitParameter_def print_Signature_def VisitSignature_def VisitUnionType_def)

section \<open>StripSelf: properties\<close>

text \<open>
  Claim C8, as amended.  \<^verbatim>\<open>StripSelf\<close> leaves the name, template, parents and constants
  of a class and the number and names of its methods as they are.  Every signature
  keeps its return type, exceptions and variadic marker; a signature with at least one
  parameter loses exactly its leading parameter, and a signature without parameters is
  returned unchanged.
\<close>

theorem StripSelf_frame:
  assumes "i < length (methods c)" and "j < length (signatures (methods c ! i))"
  shows "let m = methods c ! i;
             m' = methods (StripSelf_VisitClass c) ! i;
             s = signatures m ! j;
             s' = signatures m' ! j
         in name (StripSelf_VisitClass c) = name c
          \<and> template (StripSelf_VisitClass c) = template c
          \<and> parents (StripSelf_VisitClass c) = parents c
          \<and> constants (StripSelf_VisitClass c) = constants c
          \<and> length (methods (StripSelf_VisitClass c)) = length (methods c)
          \<and> func_name m' = func_name m
          \<and> length (signatures m') = length (signatures m)
          \<and> return_type s' = return_type s
          \<and> exceptions s' = exceptions s
          \<and> has_optional s' = has_optional s
          \<and> (params s \<noteq> [] \<longrightarrow>
               params s = hd (params s) # params s'
               \<and> Suc (length (params s')) = length (params s))
          \<and> (params s = [] \<longrightarrow> s' = s)"
  using assms
  by (cases "params (signatures (methods c ! i) ! j)")
     (simp_all add: StripSelf_VisitClass_def StripFunction_def StripSignature_def Let_def)

theorem StripSelf_frame_witness:
  "let c = \<lparr>name = ''C'', template = None, parents = [], constants = [],
            methods = [\<lparr>func_name = ''f'',
                        signatures = [\<lparr>params = [\<lparr>param_name = ''self'', param_type = BasicType ''object''\<rparr>,
                                                  \<lparr>param_name = ''x'', param_type = BasicType ''int''\<rparr>],
                                        has_optional = False, return_type = BasicType ''int'',
                                        exceptions = []\<rparr>]\<rparr>]\<rparr>
   in (0::nat) < length (methods c) \<and> (0::nat) < length (signatures (methods c ! 0))
      \<and> signatures (methods (StripSelf_VisitClass c) ! 0) ! 0
          = \<lparr>params = [\<lparr>param_name = ''x'', param_type = BasicType ''int''\<rparr>],
             has_optional = False, return_type = BasicType ''int'', exceptions = []\<rparr>"
  using StripSelf_frame [of 0 "\<lparr>name = ''C'', template = None, parents = [], constants = [],
            methods = [\<lparr>func_name = ''f'',
                        signatures = [\<lparr>params = [\<lparr>param_name = ''self'', param_type = BasicType ''object''\<rparr>,
                                                  \<lparr>param_name = ''x'', param_type = BasicType ''int''\<rparr>],
                                        has_optional = False, return_type = BasicType ''int'',
                                        exceptions = []\<rparr>]\<rparr>]\<rparr>" 0]
  by (simp add: Let_def StripSelf_VisitClass_def StripFunction_def StripSignature_def)

theorem StripSelf_no_parameter_counterexample:
  "\<not> (Suc (length (params (signatures (methods (StripSelf_VisitClass
          \<lparr>name = ''C'', template = None, parents = [], constants = [],
           methods = [\<lparr>func_name = ''f'',
                       signatures = [\<lparr>params = [], has_optional = False,
                                       return_type = BasicType ''int'', exceptions = []\<rparr>]\<rparr>]\<rparr>) ! 0) ! 0)))
        = length (params (signatures (methods
          \<lparr>name = ''C'', template = None, parents = [], constants = [],
           methods = [\<lparr>func_name = ''f'',
                       signatures = [\<lparr>params = [], has_optional = False,
                                       return_type = BasicType ''int'', exceptions = []\<rparr>]\<rparr>]\<rparr> ! 0) ! 0)))"
  by (simp add: StripSelf_VisitClass_def StripFunction_def StripSignature_def)

section \<open>InstantiateTemplates: properties\<close>

lemma single_binding:
  "map_of (rev (zip (map tmpl_name ts) [e]))
     = (case ts of [] \<Rightarrow> Map.empty | t # _ \<Rightarrow> [tmpl_name t \<mapsto> e])"
  by (cases ts) auto

lemma replace_type_single: "replace_type [T \<mapsto> e] t = subst_named T e t"
  by (induction t) auto

lemma replace_type_empty: "replace_type Map.empty t = t"
  by (induction t) (auto simp: map_idI)

lemma visit_list_st_rel:
  assumes refl: "\<And>s. R s s" and trans: "\<And>a b c. R a b \<Longrightarrow> R b c \<Longrightarrow> R a c"
    and f: "\<And>x s r s'. f x s = (r, s') \<Longrightarrow> R s s'"
  shows "visit_list_st f xs s = (r, s') \<Longrightarrow> R s s'"
proof (induction xs arbitrary: s r s')
  case Nil
  then show ?case using refl by simp
next
  case (Cons x xs)
  obtain r1 s1 where fx: "f x s = (r1, s1)" by (cases "f x s")
  then have R1: "R s s1" by (rule f)
  show ?case
  proof (cases r1)
    case (Inl err)
    with Cons.prems fx R1 show ?thesis by simp
  next
    case (Inr y)
    obtain r2 s2 where rest: "visit_list_st f xs s1 = (r2, s2)"
      by (cases "visit_list_st f xs s1")
    then have "R s1 s2" by (rule Cons.IH)
    with R1 have "R s s2" by (rule trans)
    moreover from Cons.prems fx Inr rest have "s' = s2"
      by (cases r2) auto
    ultimately show ?thesis by simp
  qed
qed

lemma inst_type_rel:
  assumes refl: "\<And>s. R s s" and trans: "\<And>a b c. R a b \<Longrightarrow> R b c \<Longrightarrow> R a c"
  shows "(\<And>b e s r s'. VisitHomogeneousContainerType h u b e s = (r, s') \<Longrightarrow> R s s')
           \<Longrightarrow> inst_type h u t st = (r, st') \<Longrightarrow> R st st'"
    and "(\<And>b e s r s'. VisitHomogeneousContainerType h u b e s = (r, s') \<Longrightarrow> R s s')
           \<Longrightarrow> inst_types h u ts st = (rs, st') \<Longrightarrow> R st st'"
proof (induction h u t st and h u ts st arbitrary: r st' and rs st'
    rule: inst_type_inst_types.induct)
  case (4 h u b e st)
  obtain r1 s1 where b: "inst_type h u b st = (r1, s1)" by (cases "inst_type h u b st")
  then have R1: "R st s1" using "4.IH"(1) "4.prems"(1) by blast
  show ?case
  proof (cases r1)
    case (Inl err)
    with "4.prems" b R1 show ?thesis by simp
  next
    case (Inr b')
    obtain r2 s2 where e: "inst_type h u e s1 = (r2, s2)" by (cases "inst_type h u e s1")
    then have R2: "R s1 s2" using "4.IH"(2) [OF b [symmetric] Inr] "4.prems"(1) by blast
    show ?thesis
    proof (cases r2)
      case (Inl err)
      with "4.prems" b e R1 R2 \<open>r1 = Inr b'\<close> show ?thesis
        using trans by auto
    next
      case (Inr e')
      with "4.prems" b e \<open>r1 = Inr b'\<close>
      have "VisitHomogeneousContainerType h u b' e' s2 = (r, st')" by simp
      then have "R s2 st'" using "4.prems"(1) by blast
      with R1 R2 show ?thesis using trans by blast
    qed
  qed
next
  case (5 h u b ps st)
  obtain r1 s1 where b: "inst_type h u b st = (r1, s1)" by (cases "inst_type h u b st")
  then have R1: "R st s1" using "5.IH"(1) "5.prems"(1) by blast
  show ?case
  proof (cases r1)
    case (Inl err)
    with "5.prems" b R1 show ?thesis by simp
  next
    case (Inr b')
    obtain r2 s2 where e: "inst_types h u ps s1 = (r2, s2)" by (cases "inst_types h u ps s1")
    then have R2: "R s1 s2" using "5.IH"(2) [OF b [symmetric] Inr] "5.prems"(1) by blast
    from "5.prems" b e \<open>r1 = Inr b'\<close> have "st' = s2" by (cases r2) auto
    with R1 R2 show ?thesis using trans by blast
  qed
next
  case (6 h u ts st)
  obtain r1 s1 where b: "inst_types h u ts st = (r1, s1)" by (cases "inst_types h u ts st")
  then have R1: "R st s1" using "6.IH" "6.prems"(1) by blast
  from "6.prems" b have "st' = s1" by (cases r1) auto
  with R1 show ?case by simp
next
  case (7 h u ts st)
  obtain r1 s1 where b: "inst_types h u ts st = (r1, s1)" by (cases "inst_types h u ts st")
  then have R1: "R st s1" using "7.IH" "7.prems"(1) by blast
  from "7.prems" b have "st' = s1" by (cases r1) auto
  with R1 show ?case by simp
next
  case (9 h u t ts st)
  obtain r1 s1 where b: "inst_type h u t st = (r1, s1)" by (cases "inst_type h u t st")
  then have R1: "R st s1" using "9.IH"(1) "9.prems"(1) by blast
  show ?case
  proof (cases r1)
    case (Inl err)
    with "9.prems" b R1 show ?thesis by simp
  next
    case (Inr t')
    obtain r2 s2 where e: "inst_types h u ts s1 = (r2, s2)" by (cases "inst_types h u ts s1")
    then have R2: "R s1 s2" using "9.IH"(2) [OF b [symmetric] Inr] "9.prems"(1) by blast
    from "9.prems" b e \<open>r1 = Inr t'\<close> have "st' = s2" by (cases r2) auto
    with R1 R2 show ?thesis using trans by blast
  qed
qed (use refl in auto)

lemma visit_Parameter_rel:
  assumes tv: "\<And>t s r s'. tv t s = (r, s') \<Longrightarrow> R s s'"
  shows "visit_Parameter tv p s = (r, s') \<Longrightarrow> R s s'"
  using tv [of "param_type p" s]
  by (auto simp: visit_Parameter_def split: prod.splits sum.splits)

lemma visit_Constant_rel:
  assumes tv: "\<And>t s r s'. tv t s = (r, s') \<Longrightarrow> R s s'"
  shows "visit_Constant tv c s = (r, s') \<Longrightarrow> R s s'"
  using tv [of "const_type c" s]
  by (auto simp: visit_Constant_def split: prod.splits sum.splits)

lemma visit_TemplateItem_rel:
  assumes tv: "\<And>t s r s'. tv t s = (r, s') \<Longrightarrow> R s s'"
  shows "visit_TemplateItem tv c s = (r, s') \<Longrightarrow> R s s'"
  using tv [of "within_type c" s]
  by (auto simp: visit_TemplateItem_def split: prod.splits sum.splits)

lemma visit_Signature_rel:
  assumes refl: "\<And>s. R s s" and trans: "\<And>a b c. R a b \<Longrightarrow> R b c \<Longrightarrow> R a c"
    and tv: "\<And>t s r s'. tv t s = (r, s') \<Longrightarrow> R s s'"
  shows "visit_Signature tv sg s = (r, s') \<Longrightarrow> R s s'"
proof -
  assume run: "visit_Signature tv sg s = (r, s')"
  obtain r1 s1 where a: "visit_list_st (visit_Parameter tv) (params sg) s = (r1, s1)"
    by (cases "visit_list_st (visit_Parameter tv) (params sg) s")
  have R1: "R s s1"
    by (rule visit_list_st_rel [where R = R and f = "visit_Parameter tv", OF refl trans
        visit_Parameter_rel [where R = R and tv = tv, OF tv] a])
  obtain r2 s2 where b: "tv (return_type sg) s1 = (r2, s2)" by (cases "tv (return_type sg) s1")
  have R2: "R s1 s2" by (rule tv [OF b])
  obtain r3 s3 where c: "visit_list_st tv (exceptions sg) s2 = (r3, s3)"
    by (cases "visit_list_st tv (exceptions sg) s2")
  have R3: "R s2 s3" by (rule visit_list_st_rel [where R = R and f = tv, OF refl trans tv c])
  from run a b c have "s' = s1 \<or> s' = s2 \<or> s' = s3"
    by (auto simp: visit_Signature_def split: sum.splits)
  with R1 R2 R3 show ?thesis using trans by blast
qed

lemma visit_Function_rel:
  assumes refl: "\<And>s. R s s" and trans: "\<And>a b c. R a b \<Longrightarrow> R b c \<Longrightarrow> R a c"
    and tv: "\<And>t s r s'. tv t s = (r, s') \<Longrightarrow> R s s'"
  shows "visit_Function tv fn s = (r, s') \<Longrightarrow> R s s'"
proof -
  assume run: "visit_Function tv fn s = (r, s')"
  obtain r1 s1 where a: "visit_list_st (visit_Signature tv) (signatures fn) s = (r1, s1)"
    by (cases "visit_list_st (visit_Signature tv) (signatures fn) s")
  have R1: "R s s1"
    by (rule visit_list_st_rel [where R = R and f = "visit_Signature tv", OF refl trans
        visit_Signature_rel [where R = R and tv = tv, OF refl trans tv] a])
  from run a have "s' = s1"
    by (auto simp: visit_Function_def split: sum.splits)
  with R1 show ?thesis by simp
qed

lemma visit_template_rel:
  assumes refl: "\<And>s. R s s" and trans: "\<And>a b c. R a b \<Longrightarrow> R b c \<Longrightarrow> R a c"
    and tv: "\<And>t s r s'. tv t s = (r, s') \<Longrightarrow> R s s'"
  shows "visit_template tv tmpl s = (r, s') \<Longrightarrow> R s s'"
proof (cases tmpl)
  case None
  assume "visit_template tv tmpl s = (r, s')"
  with None show ?thesis using refl by (simp add: visit_template_def)
next
  case (Some ts)
  assume run: "visit_template tv tmpl s = (r, s')"
  obtain r1 s1 where a: "visit_list_st (visit_TemplateItem tv) ts s = (r1, s1)"
    by (cases "visit_list_st (visit_TemplateItem tv) ts s")
  have R1: "R s s1"
    by (rule visit_list_st_rel [where R = R and f = "visit_TemplateItem tv", OF refl trans
        visit_TemplateItem_rel [where R = R and tv = tv, OF tv] a])
  from run a Some have "s' = s1"
    by (auto simp: visit_template_def split: sum.splits)
  with R1 show ?thesis by simp
qed

lemma visit_Class_rel:
  assumes refl: "\<And>s. R s s" and trans: "\<And>a b c. R a b \<Longrightarrow> R b c \<Longrightarrow> R a c"
    and tv: "\<And>t s r s'. tv t s = (r, s') \<Longrightarrow> R s s'"
  shows "visit_Class tv c s = (r, s') \<Longrightarrow> R s s'"
proof -
  assume run: "visit_Class tv c s = (r, s')"
  obtain r1 s1 where a: "visit_template tv (template c) s = (r1, s1)"
    by (cases "visit_template tv (template c) s")
  have R1: "R s s1" by (rule visit_template_rel [where R = R and tv = tv, OF refl trans tv a])
  obtain r2 s2 where b: "visit_list_st tv (parents c) s1 = (r2, s2)"
    by (cases "visit_list_st tv (parents c) s1")
  have R2: "R s1 s2" by (rule visit_list_st_rel [where R = R and f = tv, OF refl trans tv b])
  obtain r3 s3 where d: "visit_list_st (visit_Constant tv) (constants c) s2 = (r3, s3)"
    by (cases "visit_list_st (visit_Constant tv) (constants c) s2")
  have R3: "R s2 s3"
    by (rule visit_list_st_rel [where R = R and f = "visit_Constant tv", OF refl trans
        visit_Constant_rel [where R = R and tv = tv, OF tv] d])
  obtain r4 s4 where e: "visit_list_st (visit_Function tv) (methods c) s3 = (r4, s4)"
    by (cases "visit_list_st (visit_Function tv) (methods c) s3")
  have R4: "R s3 s4"
    by (rule visit_list_st_rel [where R = R and f = "visit_Function tv", OF refl trans
        visit_Function_rel [where R = R and tv = tv, OF refl trans tv] e])
  from run a b d e have "s' = s1 \<or> s' = s2 \<or> s' = s3 \<or> s' = s4"
    by (auto simp: visit_Class_def split: sum.splits)
  with R1 R2 R3 R4 show ?thesis using trans by blast
qed

lemma visit_TypeDeclUnit_rel:
  assumes refl: "\<And>s. R s s" and trans: "\<And>a b c. R a b \<Longrightarrow> R b c \<Longrightarrow> R a c"
    and tv: "\<And>t s r s'. tv t s = (r, s') \<Longrightarrow> R s s'"
  shows "visit_TypeDeclUnit tv u s = (r, s') \<Longrightarrow> R s s'"
proof -
  assume run: "visit_TypeDeclUnit tv u s = (r, s')"
  obtain r1 s1 where a: "visit_list_st (visit_Constant tv) (unit_constants u) s = (r1, s1)"
    by (cases "visit_list_st (visit_Constant tv) (unit_constants u) s")
  have R1: "R s s1"
    by (rule visit_list_st_rel [where R = R and f = "visit_Constant tv", OF refl trans
        visit_Constant_rel [where R = R and tv = tv, OF tv] a])
  obtain r2 s2 where b: "visit_list_st (visit_Function tv) (unit_functions u) s1 = (r2, s2)"
    by (cases "visit_list_st (visit_Function tv) (unit_functions u) s1")
  have R2: "R s1 s2"
    by (rule visit_list_st_rel [where R = R and f = "visit_Function tv", OF refl trans
        visit_Function_rel [where R = R and tv = tv, OF refl trans tv] b])
  obtain r3 s3 where d: "visit_list_st (visit_Class tv) (unit_classes u) s2 = (r3, s3)"
    by (cases "visit_list_st (visit_Class tv) (unit_classes u) s2")
  have R3: "R s2 s3"
    by (rule visit_list_st_rel [where R = R and f = "visit_Class tv", OF refl trans
        visit_Class_rel [where R = R and tv = tv, OF refl trans tv] d])
  from run a b d have "s' = s1 \<or> s' = s2 \<or> s' = s3"
    by (auto simp: visit_TypeDeclUnit_def split: sum.splits)
  with R1 R2 R3 show ?thesis using trans by blast
qed

text \<open>Facts about the handler.\<close>

lemma InstantiateClass_name_template:
  "InstantiateClass u nm b es = Inr c \<Longrightarrow> name c = nm \<and> template c = None"
  by (auto simp: InstantiateClass_def map_Class_def Let_def
      split: pytype.splits sum.splits option.splits)

lemma handler_appends:
  "VisitHomogeneousContainerType h u b e s = (r, s') \<Longrightarrow> \<exists>ext. s' = s @ ext"
  by (auto simp: VisitHomogeneousContainerType_def Let_def split: sum.splits if_splits)

lemma handler_keeps_cache_ok:
  "VisitHomogeneousContainerType h u b e s = (r, s') \<Longrightarrow> cache_ok s \<longrightarrow> cache_ok s'"
  by (auto simp: VisitHomogeneousContainerType_def Let_def cache_ok_def map_of_eq_None_iff
      dest: InstantiateClass_name_template split: sum.splits if_splits)

lemma inst_type_appends:
  "inst_type h u t st = (r, st') \<Longrightarrow> \<exists>ext. st' = st @ ext"
  by (rule inst_type_rel(1) [where R = "\<lambda>s s'. \<exists>ext. s' = s @ ext" and h = h and u = u])
     (auto dest: handler_appends)

lemma inst_type_keeps_cache_ok:
  "inst_type h u t st = (r, st') \<Longrightarrow> cache_ok st \<longrightarrow> cache_ok st'"
  by (rule inst_type_rel(1) [where R = "\<lambda>s s'. cache_ok s \<longrightarrow> cache_ok s'" and h = h and u = u])
     (auto dest: handler_keeps_cache_ok)

lemma run_appends:
  "visit_TypeDeclUnit (inst_type h u) m st = (r, st') \<Longrightarrow> \<exists>ext. st' = st @ ext"
  by (rule visit_TypeDeclUnit_rel [where R = "\<lambda>s s'. \<exists>ext. s' = s @ ext" and tv = "inst_type h u"])
     (auto dest: inst_type_appends)

lemma run_keeps_cache_ok:
  "visit_TypeDeclUnit (inst_type h u) m st = (r, st') \<Longrightarrow> cache_ok st \<longrightarrow> cache_ok st'"
  by (rule visit_TypeDeclUnit_rel [where R = "\<lambda>s s'. cache_ok s \<longrightarrow> cache_ok s'" and tv = "inst_type h u"])
     (auto dest: inst_type_keeps_cache_ok)

lemma replace_type_single_fun: "replace_type [T \<mapsto> e] = subst_named T e"
  by (rule ext) (rule replace_type_single)

lemma replace_type_empty_fun: "replace_type Map.empty = id"
  by (rule ext) (simp add: replace_type_empty)

text \<open>
  Claim C4, as amended.  When the base class is found, \<^verbatim>\<open>_InstantiateClass\<close> fails only if
  the class has no template at all (\<^verbatim>\<open>template\<close> is \<^verbatim>\<open>None\<close>), with a \<^verbatim>\<open>TypeError\<close>.  With
  a template list of any length it returns a class: the first template parameter, if
  there is one, is bound to the element type, and every further parameter is left
  unsubstituted.  There is no arity check.
\<close>

theorem InstantiateClass_arity:
  assumes "Lookup u ct = Inr cls"
  shows "InstantiateClass u nm (BasicType ct) [e]
     = (case template cls of
          None \<Rightarrow> Inl TypeError
        | Some ts \<Rightarrow>
            Inr (map_Class (case ts of [] \<Rightarrow> id | t # _ \<Rightarrow> subst_named (tmpl_name t) e)
                   (cls\<lparr>name := nm, template := None\<rparr>)))"
  using assms
  by (simp add: InstantiateClass_def Let_def single_binding replace_type_single_fun
      replace_type_empty_fun split: option.splits list.splits)

theorem InstantiateClass_two_parameters_counterexample:
  "InstantiateClass
     \<lparr>unit_constants = [], unit_functions = [],
      unit_classes = [\<lparr>name = ''pair'',
                       template = Some [\<lparr>tmpl_name = ''K'', within_type = BasicType ''object''\<rparr>,
                                        \<lparr>tmpl_name = ''V'', within_type = BasicType ''object''\<rparr>],
                       parents = [],
                       constants = [\<lparr>const_name = ''k'', const_type = BasicType ''K''\<rparr>,
                                    \<lparr>const_name = ''v'', const_type = BasicType ''V''\<rparr>],
                       methods = []\<rparr>]\<rparr>
     ''pair<int>'' (BasicType ''pair'') [BasicType ''int'']
   = Inr \<lparr>name = ''pair<int>'', template = None, parents = [],
          constants = [\<lparr>const_name = ''k'', const_type = BasicType ''int''\<rparr>,
                       \<lparr>const_name = ''v'', const_type = BasicType ''V''\<rparr>],
          methods = []\<rparr>"
  by (simp add: InstantiateClass_def Lookup_def Let_def map_Class_def map_Constant_def)

theorem InstantiateClass_arity_witness:
  "Lookup \<lparr>unit_constants = [], unit_functions = [],
           unit_classes = [\<lparr>name = ''list'', template = None, parents = [],
                            constants = [], methods = []\<rparr>]\<rparr> ''list''
     = Inr \<lparr>name = ''list'', template = None, parents = [], constants = [], methods = []\<rparr>
   \<and> InstantiateClass
        \<lparr>unit_constants = [], unit_functions = [],
         unit_classes = [\<lparr>name = ''list'', template = None, parents = [],
                          constants = [], methods = []\<rparr>]\<rparr>
        ''list<int>'' (BasicType ''list'') [BasicType ''int''] = Inl TypeError"
proof -
  let ?c = "\<lparr>name = ''list'', template = None, parents = [], constants = [], methods = []\<rparr>"
  let ?u = "\<lparr>unit_constants = [], unit_functions = [], unit_classes = [?c]\<rparr>"
  have l: "Lookup ?u ''list'' = Inr ?c" by (simp add: Lookup_def)
  from InstantiateClass_arity [OF l, of "''list<int>''" "BasicType ''int''"] l
  show ?thesis by simp
qed

text \<open>
  Claim C3, as amended.  When the canonical name is not yet in the dictionary and the
  base class has one template parameter \<open>T\<close>, the handler stores under the canonical name
  a copy of the base class in which every \<^verbatim>\<open>BasicType\<close> node named \<open>T\<close> is replaced by the
  element type; \<^verbatim>\<open>ClassType\<close> nodes are left as they are.  The copy is named with the
  canonical name and has no template, and the container type is replaced by a
  \<^verbatim>\<open>BasicType\<close> that carries the canonical name.
\<close>

theorem instantiation_builds_substituted_copy:
  assumes "print_type h e = Inr en"
    and "Lookup u ct = Inr cls"
    and "template cls = Some [t]"
    and "map_of st (SafeName ct @ ''<'' @ en @ ''>'') = None"
  shows "let nm = SafeName ct @ ''<'' @ en @ ''>'';
             c = map_Class (subst_named (tmpl_name t) e) (cls\<lparr>name := nm, template := None\<rparr>)
         in VisitHomogeneousContainerType h u (BasicType ct) e st
              = (Inr (BasicType nm), st @ [(nm, c)])
            \<and> name c = nm \<and> template c = None"
  using assms
  by (simp add: VisitHomogeneousContainerType_def Let_def InstantiateClass_def
      replace_type_single_fun map_Class_def)

theorem instantiation_keeps_class_reference_counterexample:
  "VisitHomogeneousContainerType (\<lambda>_. None)
     \<lparr>unit_constants = [], unit_functions = [],
      unit_classes = [\<lparr>name = ''Box'',
                       template = Some [\<lparr>tmpl_name = ''T'', within_type = BasicType ''object''\<rparr>],
                       parents = [],
                       constants = [\<lparr>const_name = ''a'', const_type = BasicType ''T''\<rparr>,
                                    \<lparr>const_name = ''b'', const_type = ClassType ''T'' None\<rparr>],
                       methods = []\<rparr>]\<rparr>
     (BasicType ''Box'') (BasicType ''int'') []
   = (Inr (BasicType ''Box<int>''),
      [(''Box<int>'',
        \<lparr>name = ''Box<int>'', template = None, parents = [],
         constants = [\<lparr>const_name = ''a'', const_type = BasicType ''int''\<rparr>,
                      \<lparr>const_name = ''b'', const_type = ClassType ''T'' None\<rparr>],
         methods = []\<rparr>)])"
  by (simp add: VisitHomogeneousContainerType_def InstantiateClass_def Lookup_def Let_def
      map_Class_def map_Constant_def SafeName_def is_letter_def is_word_char_def)

theorem instantiation_builds_substituted_copy_witness:
  "VisitHomogeneousContainerType (\<lambda>_. None)
     \<lparr>unit_constants = [], unit_functions = [],
      unit_classes = [\<lparr>name = ''Box'',
                       template = Some [\<lparr>tmpl_name = ''T'', within_type = BasicType ''object''\<rparr>],
                       parents = [],
                       constants = [\<lparr>const_name = ''item'', const_type = BasicType ''T''\<rparr>],
                       methods = []\<rparr>]\<rparr>
     (BasicType ''Box'') (BasicType ''int'') []
   = (Inr (BasicType ''Box<int>''),
      [(''Box<int>'',
        \<lparr>name = ''Box<int>'', template = None, parents = [],
         constants = [\<lparr>const_name = ''item'', const_type = BasicType ''int''\<rparr>],
         methods = []\<rparr>)])"
proof -
  let ?t = "\<lparr>tmpl_name = ''T'', within_type = BasicType ''object''\<rparr>"
  let ?cls = "\<lparr>name = ''Box'', template = Some [?t], parents = [],
               constants = [\<lparr>const_name = ''item'', const_type = BasicType ''T''\<rparr>],
               methods = []\<rparr>"
  let ?u = "\<lparr>unit_constants = [], unit_functions = [], unit_classes = [?cls]\<rparr>"
  have p: "print_type (\<lambda>_. None) (BasicType ''int'') = Inr ''int''"
    by (simp add: SafeName_def is_letter_def is_word_char_def)
  have l: "Lookup ?u ''Box'' = Inr ?cls" by (simp add: Lookup_def)
  have t: "template ?cls = Some [?t]" by simp
  have n: "map_of ([] :: cache) (SafeName ''Box'' @ ''<'' @ ''int'' @ ''>'') = None" by simp
  from instantiation_builds_substituted_copy [OF p l t n]
  show ?thesis
    by (simp add: Let_def SafeName_def is_letter_def is_word_char_def map_Class_def
        map_Constant_def)
qed

text \<open>Failure of a list traversal when one element always fails.\<close>

lemma visit_list_st_fails:
  assumes "\<exists>x \<in> set xs. \<forall>s. \<exists>err s'. f x s = (Inl err, s')"
  shows "\<exists>err s'. visit_list_st f xs s = (Inl err, s')"
  using assms
proof (induction xs arbitrary: s)
  case Nil
  then show ?case by simp
next
  case (Cons x xs)
  obtain r1 s1 where fx: "f x s = (r1, s1)" by (cases "f x s")
  show ?case
  proof (cases r1)
    case (Inl err)
    with fx show ?thesis by simp
  next
    case (Inr y)
    with fx Cons.prems have "\<exists>x \<in> set xs. \<forall>s. \<exists>err s'. f x s = (Inl err, s')"
      by (metis Inl_Inr_False Pair_inject set_ConsD)
    then obtain err s' where "visit_list_st f xs s1 = (Inl err, s')"
      using Cons.IH by blast
    with fx Inr show ?thesis by simp
  qed
qed

lemma inst_type_fails:
  shows "has_generic t \<Longrightarrow> \<exists>err s'. inst_type h u t st = (Inl err, s')"
    and "list_ex has_generic ts \<Longrightarrow> \<exists>err s'. inst_types h u ts st = (Inl err, s')"
proof (induction h u t st and h u ts st rule: inst_type_inst_types.induct)
  case (4 h u b e st)
  obtain r1 s1 where b: "inst_type h u b st = (r1, s1)" by (cases "inst_type h u b st")
  show ?case
  proof (cases r1)
    case (Inl err)
    with b show ?thesis by simp
  next
    case (Inr b')
    obtain r2 s2 where e: "inst_type h u e s1 = (r2, s2)" by (cases "inst_type h u e s1")
    show ?thesis
    proof (cases r2)
      case (Inl err)
      with b e \<open>r1 = Inr b'\<close> show ?thesis by simp
    next
      case (Inr e')
      from "4.prems" have "has_generic b \<or> has_generic e" by simp
      then show ?thesis
      proof
        assume "has_generic b"
        with "4.IH"(1) b \<open>r1 = Inr b'\<close> show ?thesis by auto
      next
        assume "has_generic e"
        with "4.IH"(2) [OF b [symmetric] \<open>r1 = Inr b'\<close>] e Inr show ?thesis by auto
      qed
    qed
  qed
next
  case (5 h u b ps st)
  then show ?case by (auto split: prod.splits sum.splits)
next
  case (6 h u ts st)
  then show ?case by (auto split: prod.splits sum.splits)
next
  case (7 h u ts st)
  then show ?case by (auto split: prod.splits sum.splits)
next
  case (9 h u t ts st)
  obtain r1 s1 where b: "inst_type h u t st = (r1, s1)" by (cases "inst_type h u t st")
  show ?case
  proof (cases r1)
    case (Inl err)
    with b show ?thesis by simp
  next
    case (Inr t')
    obtain r2 s2 where e: "inst_types h u ts s1 = (r2, s2)" by (cases "inst_types h u ts s1")
    show ?thesis
    proof (cases r2)
      case (Inl err)
      with b e \<open>r1 = Inr t'\<close> show ?thesis by simp
    next
      case (Inr ts')
      from "9.prems" have "has_generic t \<or> list_ex has_generic ts" by simp
      then show ?thesis
      proof
        assume "has_generic t"
        with "9.IH"(1) b \<open>r1 = Inr t'\<close> show ?thesis by auto
      next
        assume "list_ex has_generic ts"
        with "9.IH"(2) [OF b [symmetric] \<open>r1 = Inr t'\<close>] e Inr show ?thesis by auto
      qed
    qed
  qed
qed auto

lemma visit_Parameter_fails:
  assumes "\<forall>s. \<exists>err s'. tv (param_type p) s = (Inl err, s')"
  shows "\<exists>err s'. visit_Parameter tv p s = (Inl err, s')"
proof -
  from assms obtain err s' where "tv (param_type p) s = (Inl err, s')" by blast
  then show ?thesis by (simp add: visit_Parameter_def)
qed

lemma visit_Constant_fails:
  assumes "\<forall>s. \<exists>err s'. tv (const_type c) s = (Inl err, s')"
  shows "\<exists>err s'. visit_Constant tv c s = (Inl err, s')"
proof -
  from assms obtain err s' where "tv (const_type c) s = (Inl err, s')" by blast
  then show ?thesis by (simp add: visit_Constant_def)
qed

lemma visit_TemplateItem_fails:
  assumes "\<forall>s. \<exists>err s'. tv (within_type c) s = (Inl err, s')"
  shows "\<exists>err s'. visit_TemplateItem tv c s = (Inl err, s')"
proof -
  from assms obtain err s' where "tv (within_type c) s = (Inl err, s')" by blast
  then show ?thesis by (simp add: visit_TemplateItem_def)
qed

lemma visit_Signature_fails:
  assumes t: "t \<in> set (types_Signature sg)"
    and f: "\<forall>s. \<exists>err s'. tv t s = (Inl err, s')"
  shows "\<exists>err s'. visit_Signature tv sg s = (Inl err, s')"
proof -
  obtain r1 s1 where a: "visit_list_st (visit_Parameter tv) (params sg) s = (r1, s1)"
    by (cases "visit_list_st (visit_Parameter tv) (params sg) s")
  obtain r2 s2 where b: "tv (return_type sg) s1 = (r2, s2)" by (cases "tv (return_type sg) s1")
  obtain r3 s3 where c: "visit_list_st tv (exceptions sg) s2 = (r3, s3)"
    by (cases "visit_list_st tv (exceptions sg) s2")
  from t consider (p) "\<exists>p \<in> set (params sg). t = param_type p" | (r) "t = return_type sg"
    | (e) "t \<in> set (exceptions sg)"
    by (auto simp: types_Signature_def)
  then have "(\<exists>err. r1 = Inl err) \<or> (\<exists>err. r2 = Inl err) \<or> (\<exists>err. r3 = Inl err)"
  proof cases
    case p
    then have "\<exists>x \<in> set (params sg). \<forall>s. \<exists>err s'. visit_Parameter tv x s = (Inl err, s')"
      using f visit_Parameter_fails by metis
    from visit_list_st_fails [OF this, of s] a show ?thesis by auto
  next
    case r
    with f b show ?thesis by (metis Pair_inject)
  next
    case e
    then have "\<exists>x \<in> set (exceptions sg). \<forall>s. \<exists>err s'. tv x s = (Inl err, s')"
      using f by blast
    from visit_list_st_fails [OF this, of s2] c show ?thesis by auto
  qed
  with a b c show ?thesis
    by (auto simp: visit_Signature_def split: sum.splits)
qed

lemma visit_Function_fails:
  assumes t: "t \<in> set (types_Function fn)"
    and f: "\<forall>s. \<exists>err s'. tv t s = (Inl err, s')"
  shows "\<exists>err s'. visit_Function tv fn s = (Inl err, s')"
proof -
  from t obtain sg where "sg \<in> set (signatures fn)" "t \<in> set (types_Signature sg)"
    by (auto simp: types_Function_def)
  then have "\<exists>x \<in> set (signatures fn). \<forall>s. \<exists>err s'. visit_Signature tv x s = (Inl err, s')"
    using f visit_Signature_fails by metis
  from visit_list_st_fails [OF this, of s] show ?thesis
    by (auto simp: visit_Function_def)
qed

lemma visit_template_fails:
  assumes t: "t \<in> set (types_template tmpl)"
    and f: "\<forall>s. \<exists>err s'. tv t s = (Inl err, s')"
  shows "\<exists>err s'. visit_template tv tmpl s = (Inl err, s')"
proof (cases tmpl)
  case None
  with t show ?thesis by (simp add: types_template_def)
next
  case (Some ts)
  with t obtain x where x: "x \<in> set ts" "t = within_type x"
    by (auto simp: types_template_def)
  with f have "\<forall>s. \<exists>err s'. visit_TemplateItem tv x s = (Inl err, s')"
    using visit_TemplateItem_fails by metis
  with x have "\<exists>x \<in> set ts. \<forall>s. \<exists>err s'. visit_TemplateItem tv x s = (Inl err, s')"
    by blast
  from visit_list_st_fails [OF this, of s] Some show ?thesis
    by (auto simp: visit_template_def)
qed

lemma visit_Class_fails:
  assumes t: "t \<in> set (types_Class c)"
    and f: "\<forall>s. \<exists>err s'. tv t s = (Inl err, s')"
  shows "\<exists>err s'. visit_Class tv c s = (Inl err, s')"
proof -
  obtain r1 s1 where a: "visit_template tv (template c) s = (r1, s1)"
    by (cases "visit_template tv (template c) s")
  obtain r2 s2 where b: "visit_list_st tv (parents c) s1 = (r2, s2)"
    by (cases "visit_list_st tv (parents c) s1")
  obtain r3 s3 where d: "visit_list_st (visit_Constant tv) (constants c) s2 = (r3, s3)"
    by (cases "visit_list_st (visit_Constant tv) (constants c) s2")
  obtain r4 s4 where e: "visit_list_st (visit_Function tv) (methods c) s3 = (r4, s4)"
    by (cases "visit_list_st (visit_Function tv) (methods c) s3")
  from t consider (tm) "t \<in> set (types_template (template c))" | (pa) "t \<in> set (parents c)"
    | (co) "\<exists>k \<in> set (constants c). t = const_type k"
    | (me) "\<exists>m \<in> set (methods c). t \<in> set (types_Function m)"
    by (auto simp: types_Class_def)
  then have "(\<exists>err. r1 = Inl err) \<or> (\<exists>err. r2 = Inl err) \<or> (\<exists>err. r3 = Inl err)
      \<or> (\<exists>err. r4 = Inl err)"
  proof cases
    case tm
    from visit_template_fails [where tv = tv, OF tm f, of s] a show ?thesis by auto
  next
    case pa
    then have "\<exists>x \<in> set (parents c). \<forall>s. \<exists>err s'. tv x s = (Inl err, s')"
      using f by blast
    from visit_list_st_fails [OF this, of s1] b show ?thesis by auto
  next
    case co
    then have "\<exists>x \<in> set (constants c). \<forall>s. \<exists>err s'. visit_Constant tv x s = (Inl err, s')"
      using f visit_Constant_fails by metis
    from visit_list_st_fails [OF this, of s2] d show ?thesis by auto
  next
    case me
    then have "\<exists>x \<in> set (methods c). \<forall>s. \<exists>err s'. visit_Function tv x s = (Inl err, s')"
      using f visit_Function_fails by metis
    from visit_list_st_fails [OF this, of s3] e show ?thesis by auto
  qed
  with a b d e show ?thesis
    by (auto simp: visit_Class_def split: sum.splits)
qed

lemma visit_TypeDeclUnit_fails:
  assumes t: "t \<in> set (types_TypeDeclUnit u)"
    and f: "\<forall>s. \<exists>err s'. tv t s = (Inl err, s')"
  shows "\<exists>err s'. visit_TypeDeclUnit tv u s = (Inl err, s')"
proof -
  obtain r1 s1 where a: "visit_list_st (visit_Constant tv) (unit_constants u) s = (r1, s1)"
    by (cases "visit_list_st (visit_Constant tv) (unit_constants u) s")
  obtain r2 s2 where b: "visit_list_st (visit_Function tv) (unit_functions u) s1 = (r2, s2)"
    by (cases "visit_list_st (visit_Function tv) (unit_functions u) s1")
  obtain r3 s3 where d: "visit_list_st (visit_Class tv) (unit_classes u) s2 = (r3, s3)"
    by (cases "visit_list_st (visit_Class tv) (unit_classes u) s2")
  from t consider (co) "\<exists>k \<in> set (unit_constants u). t = const_type k"
    | (fu) "\<exists>m \<in> set (unit_functions u). t \<in> set (types_Function m)"
    | (cl) "\<exists>c \<in> set (unit_classes u). t \<in> set (types_Class c)"
    by (auto simp: types_TypeDeclUnit_def)
  then have "(\<exists>err. r1 = Inl err) \<or> (\<exists>err. r2 = Inl err) \<or> (\<exists>err. r3 = Inl err)"
  proof cases
    case co
    then have "\<exists>x \<in> set (unit_constants u). \<forall>s. \<exists>err s'. visit_Constant tv x s = (Inl err, s')"
      using f visit_Constant_fails by metis
    from visit_list_st_fails [OF this, of s] a show ?thesis by auto
  next
    case fu
    then have "\<exists>x \<in> set (unit_functions u). \<forall>s. \<exists>err s'. visit_Function tv x s = (Inl err, s')"
      using f visit_Function_fails by metis
    from visit_list_st_fails [OF this, of s1] b show ?thesis by auto
  next
    case cl
    then have "\<exists>x \<in> set (unit_classes u). \<forall>s. \<exists>err s'. visit_Class tv x s = (Inl err, s')"
      using f visit_Class_fails by metis
    from visit_list_st_fails [OF this, of s2] d show ?thesis by auto
  qed
  with a b d show ?thesis
    by (auto simp: visit_TypeDeclUnit_def split: sum.splits)
qed

text \<open>
  Claim C6.  Once the children of a \<^verbatim>\<open>GenericType\<close> node have been visited, the handler
  raises \<^verbatim>\<open>NotImplementedError\<close>, the error the specification calls
  UnsupportedConstructError.  The traversal of a \<^verbatim>\<open>GenericType\<close> node never returns a node,
  and a module with such a node anywhere makes the run fail.  Every traversal only
  appends to the dictionary of instantiated classes: the entries present before are
  still there, unchanged and in place, when the run fails.
\<close>

theorem generic_type_not_implemented:
  "(inst_type h u b st = (Inr b', s1) \<longrightarrow> inst_types h u ps s1 = (Inr ps', s2) \<longrightarrow>
      inst_type h u (GenericType b ps) st = (Inl NotImplementedError, s2))
   \<and> (\<exists>err ext. inst_type h u (GenericType b ps) st = (Inl err, st @ ext))
   \<and> (t \<in> set (types_TypeDeclUnit m) \<longrightarrow> has_generic t \<longrightarrow>
        (\<exists>err ext. InstantiateTemplates h u m = (Inl err, ext)))
   \<and> (visit_TypeDeclUnit (inst_type h u) m st = (r, st') \<longrightarrow> (\<exists>ext. st' = st @ ext))"
proof (intro conjI impI)
  assume "inst_type h u b st = (Inr b', s1)" and "inst_types h u ps s1 = (Inr ps', s2)"
  then show "inst_type h u (GenericType b ps) st = (Inl NotImplementedError, s2)" by simp
next
  have "has_generic (GenericType b ps)" by simp
  from inst_type_fails(1) [OF this, of h u st]
  obtain err s' where run: "inst_type h u (GenericType b ps) st = (Inl err, s')" by blast
  from inst_type_appends [OF run] obtain ext where "s' = st @ ext" by blast
  with run show "\<exists>err ext. inst_type h u (GenericType b ps) st = (Inl err, st @ ext)" by blast
next
  assume t: "t \<in> set (types_TypeDeclUnit m)" and g: "has_generic t"
  from g have "\<forall>s. \<exists>err s'. inst_type h u t s = (Inl err, s')"
    using inst_type_fails(1) by blast
  from visit_TypeDeclUnit_fails [where tv = "inst_type h u", OF t this, of "[]"]
  show "\<exists>err ext. InstantiateTemplates h u m = (Inl err, ext)"
    by (auto simp: InstantiateTemplates_def)
next
  assume "visit_TypeDeclUnit (inst_type h u) m st = (r, st')"
  then show "\<exists>ext. st' = st @ ext" by (rule run_appends)
qed

lemma visit_list_st_all2:
  "visit_list_st f xs s = (Inr ys, s') \<Longrightarrow>
     list_all2 (\<lambda>x y. \<exists>s1 s2. f x s1 = (Inr y, s2)) xs ys"
proof (induction xs arbitrary: s ys s')
  case Nil
  then show ?case by simp
next
  case (Cons x xs)
  obtain r1 s1 where fx: "f x s = (r1, s1)" by (cases "f x s")
  obtain r2 s2 where rest: "visit_list_st f xs s1 = (r2, s2)"
    by (cases "visit_list_st f xs s1")
  from Cons.prems fx rest obtain y ys' where
    y: "r1 = Inr y" "r2 = Inr ys'" "ys = y # ys'"
    by (auto split: sum.splits)
  from Cons.IH rest y have "list_all2 (\<lambda>x y. \<exists>s1 s2. f x s1 = (Inr y, s2)) xs ys'" by blast
  with fx y show ?case by auto
qed

lemma visit_template_None:
  "visit_template tv tmpl s = (Inr tmpl', s') \<Longrightarrow> (tmpl' = None \<longleftrightarrow> tmpl = None)"
proof (cases tmpl)
  case None
  assume "visit_template tv tmpl s = (Inr tmpl', s')"
  with None show ?thesis by (simp add: visit_template_def)
next
  case (Some ts)
  assume run: "visit_template tv tmpl s = (Inr tmpl', s')"
  obtain r1 s1 where "visit_list_st (visit_TemplateItem tv) ts s = (r1, s1)"
    by (cases "visit_list_st (visit_TemplateItem tv) ts s")
  with run Some show ?thesis by (cases r1) (auto simp: visit_template_def)
qed

lemma visit_Class_name_template:
  assumes run: "visit_Class tv c s = (Inr c', s')"
  shows "name c' = name c \<and> (template c' = None \<longleftrightarrow> template c = None)"
proof -
  obtain r1 s1 where a: "visit_template tv (template c) s = (r1, s1)"
    by (cases "visit_template tv (template c) s")
  obtain r2 s2 where b: "visit_list_st tv (parents c) s1 = (r2, s2)"
    by (cases "visit_list_st tv (parents c) s1")
  obtain r3 s3 where d: "visit_list_st (visit_Constant tv) (constants c) s2 = (r3, s3)"
    by (cases "visit_list_st (visit_Constant tv) (constants c) s2")
  obtain r4 s4 where e: "visit_list_st (visit_Function tv) (methods c) s3 = (r4, s4)"
    by (cases "visit_list_st (visit_Function tv) (methods c) s3")
  from run a b d e obtain tmpl where t: "r1 = Inr tmpl" "template c' = tmpl" "name c' = name c"
    by (auto simp: visit_Class_def split: sum.splits)
  from a t(1) have "tmpl = None \<longleftrightarrow> template c = None"
    using visit_template_None [of tv "template c" s tmpl s1] by simp
  with t show ?thesis by simp
qed

lemma visit_TypeDeclUnit_classes:
  assumes "visit_TypeDeclUnit tv m s = (Inr node, s')"
  shows "list_all2 (\<lambda>c c'. (\<exists>s1 s2. visit_Class tv c s1 = (Inr c', s2)) \<and> name c' = name c
            \<and> (template c' = None \<longleftrightarrow> template c = None)) (unit_classes m) (unit_classes node)"
proof -
  from assms obtain s2 where
    "visit_list_st (visit_Class tv) (unit_classes m) s2 = (Inr (unit_classes node), s')"
    by (auto simp: visit_TypeDeclUnit_def split: prod.splits sum.splits)
  from visit_list_st_all2 [OF this]
  show ?thesis
    by (rule list_all2_mono) (auto dest: visit_Class_name_template)
qed

lemma cache_ok_templates: "cache_ok st \<Longrightarrow> c \<in> set (map snd st) \<Longrightarrow> template c = None"
  by (auto simp: cache_ok_def)

lemma cache_ok_one_class:
  "cache_ok st \<Longrightarrow> map_of st nm = Some c \<Longrightarrow> filter (\<lambda>c. name c = nm) (map snd st) = [c]"
proof (induction st)
  case Nil
  then show ?case by simp
next
  case (Cons kc st)
  obtain k c0 where kc: "kc = (k, c0)" by (cases kc)
  from Cons.prems(1) kc have ok: "cache_ok st" and k: "k \<notin> fst ` set st" and n: "name c0 = k"
    by (auto simp: cache_ok_def)
  show ?case
  proof (cases "k = nm")
    case True
    with Cons.prems(2) kc have "c0 = c" by simp
    moreover have "\<forall>x \<in> set st. name (snd x) \<noteq> nm"
    proof
      fix x assume x: "x \<in> set st"
      with ok have "name (snd x) = fst x" by (auto simp: cache_ok_def)
      moreover from x k have "fst x \<noteq> k" by force
      ultimately show "name (snd x) \<noteq> nm" using True by simp
    qed
    then have "filter (\<lambda>c. name c = nm) (map snd st) = []"
      by (simp add: filter_empty_conv)
    ultimately show ?thesis using kc n True by simp
  next
    case False
    with Cons.prems(2) kc have "map_of st nm = Some c" by simp
    with Cons.IH ok have "filter (\<lambda>c. name c = nm) (map snd st) = [c]" by blast
    with kc n False show ?thesis by simp
  qed
qed

lemma kept_classes_count:
  "list_all2 (\<lambda>c c'. name c' = name c \<and> (template c' = None \<longleftrightarrow> template c = None)) cs cs' \<Longrightarrow>
     length (filter (\<lambda>c. name c = nm) (filter (\<lambda>c. template c = None) cs'))
       = length (filter (\<lambda>c. name c = nm \<and> template c = None) cs)"
  by (induction cs cs' rule: list_all2_induct) auto

lemma cache_ok_Nil: "cache_ok []"
  by (simp add: cache_ok_def)

text \<open>
  Claim C7.  The class list of the module a completed run returns is the list of the
  visited original classes that have no template, followed by the classes of the
  dictionary of this run.  Each visited class keeps the name of its original and has a
  template exactly when the original has one.  No class of the result has a template.
\<close>

theorem final_class_list:
  assumes "InstantiateTemplates h u m = (Inr m', st)"
  shows "\<exists>cs. list_all2 (\<lambda>c c'. (\<exists>s1 s2. visit_Class (inst_type h u) c s1 = (Inr c', s2))
                    \<and> name c' = name c
                    \<and> (template c' = None \<longleftrightarrow> template c = None)) (unit_classes m) cs
            \<and> unit_classes m' = filter (\<lambda>c. template c = None) cs @ map snd st
            \<and> (\<forall>c \<in> set (unit_classes m'). template c = None)"
proof -
  from assms obtain node where
    run: "visit_TypeDeclUnit (inst_type h u) m [] = (Inr node, st)"
    and m': "m' = VisitTypeDeclUnit node st"
    by (auto simp: InstantiateTemplates_def split: prod.splits sum.splits)
  from run_keeps_cache_ok [OF run] have ok: "cache_ok st" by (simp add: cache_ok_Nil)
  have cls: "unit_classes m' = filter (\<lambda>c. template c = None) (unit_classes node) @ map snd st"
    by (simp add: m' VisitTypeDeclUnit_def)
  have "\<forall>c \<in> set (unit_classes m'). template c = None"
    unfolding cls using cache_ok_templates [OF ok] by auto
  with visit_TypeDeclUnit_classes [OF run] cls show ?thesis by blast
qed

text \<open>
  Claim C2, as amended.  A successful visit of a container type returns a \<^verbatim>\<open>BasicType\<close>
  of the canonical name \<^verbatim>\<open>base_text + "<" + element_text + ">"\<close> and leaves a class stored
  under that name; visiting the same pair again at any later state of the dictionary
  returns the same node, leaves the dictionary as it is and finds the same class.  In
  the module a completed run returns, the number of classes named by a key of the
  dictionary is one more than the number of original classes without template that
  bear this name: exactly one when no such original class exists.
\<close>

theorem memoized_instantiation:
  "(VisitHomogeneousContainerType h u b e st = (Inr r, st1) \<longrightarrow>
      (\<exists>bn en c. print_type h b = Inr bn \<and> print_type h e = Inr en
          \<and> r = BasicType (bn @ ''<'' @ en @ ''>'')
          \<and> map_of st1 (bn @ ''<'' @ en @ ''>'') = Some c
          \<and> VisitHomogeneousContainerType h u b e (st1 @ ext) = (Inr r, st1 @ ext)
          \<and> map_of (st1 @ ext) (bn @ ''<'' @ en @ ''>'') = Some c))
   \<and> (InstantiateTemplates h u m = (Inr m', cache) \<longrightarrow> map_of cache nm = Some cl \<longrightarrow>
        length (filter (\<lambda>c. name c = nm) (unit_classes m'))
          = Suc (length (filter (\<lambda>c. name c = nm \<and> template c = None) (unit_classes m))))"
proof (intro conjI impI)
  assume run: "VisitHomogeneousContainerType h u b e st = (Inr r, st1)"
  then obtain bn en where p: "print_type h b = Inr bn" "print_type h e = Inr en"
    by (auto simp: VisitHomogeneousContainerType_def split: sum.splits)
  let ?nm = "bn @ ''<'' @ en @ ''>''"
  from run p have r: "r = BasicType ?nm"
    by (auto simp: VisitHomogeneousContainerType_def Let_def split: sum.splits if_splits)
  from run p have "\<exists>c. map_of st1 ?nm = Some c"
    by (auto simp: VisitHomogeneousContainerType_def Let_def map_add_Some_iff
        split: sum.splits if_splits)
  then obtain c where c: "map_of st1 ?nm = Some c" by blast
  then have c': "map_of (st1 @ ext) ?nm = Some c" by (simp add: map_add_Some_iff)
  with p r c have "VisitHomogeneousContainerType h u b e (st1 @ ext) = (Inr r, st1 @ ext)"
    by (simp add: VisitHomogeneousContainerType_def Let_def)
  with p r c c' show "\<exists>bn en c. print_type h b = Inr bn \<and> print_type h e = Inr en
          \<and> r = BasicType (bn @ ''<'' @ en @ ''>'')
          \<and> map_of st1 (bn @ ''<'' @ en @ ''>'') = Some c
          \<and> VisitHomogeneousContainerType h u b e (st1 @ ext) = (Inr r, st1 @ ext)
          \<and> map_of (st1 @ ext) (bn @ ''<'' @ en @ ''>'') = Some c" by blast
next
  assume fin: "InstantiateTemplates h u m = (Inr m', cache)" and nm: "map_of cache nm = Some cl"
  from fin obtain node where
    run: "visit_TypeDeclUnit (inst_type h u) m [] = (Inr node, cache)"
    and m': "m' = VisitTypeDeclUnit node cache"
    by (auto simp: InstantiateTemplates_def split: prod.splits sum.splits)
  from run_keeps_cache_ok [OF run] have ok: "cache_ok cache" by (simp add: cache_ok_Nil)
  have cls: "unit_classes m' = filter (\<lambda>c. template c = None) (unit_classes node) @ map snd cache"
    by (simp add: m' VisitTypeDeclUnit_def)
  have "list_all2 (\<lambda>c c'. name c' = name c \<and> (template c' = None \<longleftrightarrow> template c = None))
          (unit_classes m) (unit_classes node)"
    by (rule list_all2_mono [OF visit_TypeDeclUnit_classes [OF run]]) blast
  from kept_classes_count [OF this, of nm] cache_ok_one_class [OF ok nm]
  show "length (filter (\<lambda>c. name c = nm) (unit_classes m'))
          = Suc (length (filter (\<lambda>c. name c = nm \<and> template c = None) (unit_classes m)))"
    by (simp add: cls)
qed

lemmas ev = InstantiateTemplates_def visit_TypeDeclUnit_def visit_Constant_def visit_Class_def
  visit_template_def visit_TemplateItem_def VisitHomogeneousContainerType_def
  InstantiateClass_def Lookup_def SafeName_def is_letter_def is_word_char_def map_Class_def
  map_Constant_def VisitTypeDeclUnit_def Let_def

theorem two_classes_of_canonical_name_counterexample:
  "fst (InstantiateTemplates (\<lambda>_. None)
     \<lparr>unit_constants = [\<lparr>const_name = ''x'',
                          const_type = HomogeneousContainerType (BasicType ''list'') (BasicType ''int'')\<rparr>],
      unit_functions = [],
      unit_classes = [\<lparr>name = ''list'',
                       template = Some [\<lparr>tmpl_name = ''T'', within_type = BasicType ''object''\<rparr>],
                       parents = [],
                       constants = [\<lparr>const_name = ''item'', const_type = BasicType ''T''\<rparr>],
                       methods = []\<rparr>,
                      \<lparr>name = ''list<int>'', template = None, parents = [], constants = [],
                       methods = []\<rparr>]\<rparr>
     \<lparr>unit_constants = [\<lparr>const_name = ''x'',
                          const_type = HomogeneousContainerType (BasicType ''list'') (BasicType ''int'')\<rparr>],
      unit_functions = [],
      unit_classes = [\<lparr>name = ''list'',
                       template = Some [\<lparr>tmpl_name = ''T'', within_type = BasicType ''object''\<rparr>],
                       parents = [],
                       constants = [\<lparr>const_name = ''item'', const_type = BasicType ''T''\<rparr>],
                       methods = []\<rparr>,
                      \<lparr>name = ''list<int>'', template = None, parents = [], constants = [],
                       methods = []\<rparr>]\<rparr>)
   = Inr \<lparr>unit_constants = [\<lparr>const_name = ''x'', const_type = BasicType ''list<int>''\<rparr>],
          unit_functions = [],
          unit_classes = [\<lparr>name = ''list<int>'', template = None, parents = [], constants = [],
                           methods = []\<rparr>,
                          \<lparr>name = ''list<int>'', template = None, parents = [],
                           constants = [\<lparr>const_name = ''item'', const_type = BasicType ''int''\<rparr>],
                           methods = []\<rparr>]\<rparr>"
  by (simp add: ev)

lemmas example_defs = box_module_def generic_module_def box_class_def plain_class_def
  box_int_class_def

lemma box_module_handler:
  "VisitHomogeneousContainerType (\<lambda>_. None) box_module (BasicType ''Box'') (BasicType ''int'') []
     = (Inr (BasicType ''Box<int>''), [(''Box<int>'', box_int_class)])"
  by (simp add: ev example_defs)

lemma box_module_run:
  "InstantiateTemplates (\<lambda>_. None) box_module box_module
     = (Inr \<lparr>unit_constants = [\<lparr>const_name = ''x'', const_type = BasicType ''Box<int>''\<rparr>,
                                \<lparr>const_name = ''y'', const_type = BasicType ''Box<int>''\<rparr>],
             unit_functions = [],
             unit_classes = [plain_class, box_int_class]\<rparr>,
        [(''Box<int>'', box_int_class)])"
  by (simp add: ev example_defs)

lemma generic_module_run:
  "visit_TypeDeclUnit (inst_type (\<lambda>_. None) generic_module) generic_module []
     = (Inl NotImplementedError, [(''Box<int>'', box_int_class)])"
  by (simp add: ev example_defs)

theorem memoized_instantiation_witness:
  "VisitHomogeneousContainerType (\<lambda>_. None) box_module (BasicType ''Box'') (BasicType ''int'') []
     = (Inr (BasicType ''Box<int>''), [(''Box<int>'', box_int_class)])
   \<and> VisitHomogeneousContainerType (\<lambda>_. None) box_module (BasicType ''Box'') (BasicType ''int'')
        ([(''Box<int>'', box_int_class)] @ [])
     = (Inr (BasicType ''Box<int>''), [(''Box<int>'', box_int_class)] @ [])
   \<and> map_of [(''Box<int>'', box_int_class)] ''Box<int>'' = Some box_int_class
   \<and> length (filter (\<lambda>c. name c = ''Box<int>'')
        (unit_classes \<lparr>unit_constants = [\<lparr>const_name = ''x'', const_type = BasicType ''Box<int>''\<rparr>,
                                          \<lparr>const_name = ''y'', const_type = BasicType ''Box<int>''\<rparr>],
                        unit_functions = [],
                        unit_classes = [plain_class, box_int_class]\<rparr>))
      = Suc (length (filter (\<lambda>c. name c = ''Box<int>'' \<and> template c = None)
               (unit_classes box_module)))"
  using memoized_instantiation
    [of "\<lambda>_. None" box_module "BasicType ''Box''" "BasicType ''int''" "[]"
        "BasicType ''Box<int>''" "[(''Box<int>'', box_int_class)]" "[]" box_module
        "\<lparr>unit_constants = [\<lparr>const_name = ''x'', const_type = BasicType ''Box<int>''\<rparr>,
                            \<lparr>const_name = ''y'', const_type = BasicType ''Box<int>''\<rparr>],
          unit_functions = [],
          unit_classes = [plain_class, box_int_class]\<rparr>"
        "[(''Box<int>'', box_int_class)]" "''Box<int>''" box_int_class]
    box_module_handler box_module_run
  by (simp add: SafeName_def is_letter_def is_word_char_def example_defs)

theorem final_class_list_witness:
  "InstantiateTemplates (\<lambda>_. None) box_module box_module
     = (Inr \<lparr>unit_constants = [\<lparr>const_name = ''x'', const_type = BasicType ''Box<int>''\<rparr>,
                                \<lparr>const_name = ''y'', const_type = BasicType ''Box<int>''\<rparr>],
             unit_functions = [],
             unit_classes = [plain_class, box_int_class]\<rparr>,
        [(''Box<int>'', box_int_class)])
   \<and> template plain_class = None \<and> template box_int_class = None"
  using final_class_list [OF box_module_run] box_module_run
  by (simp add: example_defs)

theorem generic_type_not_implemented_witness:
  "inst_type (\<lambda>_. None) generic_module (BasicType ''dict'') [(''Box<int>'', box_int_class)]
     = (Inr (BasicType ''dict''), [(''Box<int>'', box_int_class)])
   \<and> inst_types (\<lambda>_. None) generic_module [BasicType ''int'', BasicType ''str'']
        [(''Box<int>'', box_int_class)]
     = (Inr [BasicType ''int'', BasicType ''str''], [(''Box<int>'', box_int_class)])
   \<and> inst_type (\<lambda>_. None) generic_module
        (GenericType (BasicType ''dict'') [BasicType ''int'', BasicType ''str''])
        [(''Box<int>'', box_int_class)]
     = (Inl NotImplementedError, [(''Box<int>'', box_int_class)])
   \<and> GenericType (BasicType ''dict'') [BasicType ''int'', BasicType ''str'']
        \<in> set (types_TypeDeclUnit generic_module)
   \<and> has_generic (GenericType (BasicType ''dict'') [BasicType ''int'', BasicType ''str''])
   \<and> (\<exists>err ext. InstantiateTemplates (\<lambda>_. None) generic_module generic_module = (Inl err, ext))
   \<and> visit_TypeDeclUnit (inst_type (\<lambda>_. None) generic_module) generic_module []
     = (Inl NotImplementedError, [(''Box<int>'', box_int_class)])"
  using generic_type_not_implemented
    [of "\<lambda>_. None" generic_module "BasicType ''dict''" "[(''Box<int>'', box_int_class)]"
        "BasicType ''dict''" "[(''Box<int>'', box_int_class)]"
        "[BasicType ''int'', BasicType ''str'']" "[BasicType ''int'', BasicType ''str'']"
        "[(''Box<int>'', box_int_class)]"
        "GenericType (BasicType ''dict'') [BasicType ''int'', BasicType ''str'']"
        generic_module "Inl NotImplementedError" "[(''Box<int>'', box_int_class)]"]
    generic_module_run
  by (simp add: types_TypeDeclUnit_def generic_module_def)

section \<open>LookupClasses and FillInClasses: properties\<close>

lemma visit_list_back:
  "visit_list f xs = Inr ys \<Longrightarrow> y \<in> set ys \<Longrightarrow> \<exists>x \<in> set xs. f x = Inr y"
  by (induction xs arbitrary: ys) (auto split: sum.splits)

lemma visit_list_forth:
  "visit_list f xs = Inr ys \<Longrightarrow> x \<in> set xs \<Longrightarrow> \<exists>y \<in> set ys. f x = Inr y"
  by (induction xs arbitrary: ys) (auto split: sum.splits)

lemma visit_list_error:
  "visit_list f xs = Inl e \<Longrightarrow> \<exists>x \<in> set xs. f x = Inl e"
  by (induction xs) (auto split: sum.splits)

lemma visit_list_length:
  "visit_list f xs = Inr ys \<Longrightarrow> length ys = length xs"
  by (induction xs arbitrary: ys) (auto split: sum.splits)

lemma fill_types_visit_list: "fill_types look ts = visit_list (fill_type look) ts"
  by (induction ts) (auto split: sum.splits)

lemma class_refs_lookup_type: "map fst (class_refs (lookup_type t)) = ref_names t"
  by (induction t) (auto simp: map_concat comp_def intro: arg_cong [where f = concat])

lemma fill_type_links:
  shows "fill_type look t = Inr t' \<Longrightarrow> (n, l) \<in> set (class_refs t') \<Longrightarrow>
           \<exists>a. look n = Inr a \<and> l = Some a"
    and "fill_types look ts = Inr ts' \<Longrightarrow> (n, l) \<in> set (concat (map class_refs ts')) \<Longrightarrow>
           \<exists>a. look n = Inr a \<and> l = Some a"
  by (induction look t and look ts arbitrary: t' and ts' rule: fill_type_fill_types.induct)
     ((auto split: sum.splits)[1] | blast | fastforce)+

lemma fill_type_error:
  shows "fill_type look t = Inl e \<Longrightarrow> \<exists>n \<in> fst ` set (class_refs t). look n = Inl e"
    and "fill_types look ts = Inl e \<Longrightarrow>
           \<exists>n \<in> fst ` set (concat (map class_refs ts)). look n = Inl e"
  by (induction look t and look ts rule: fill_type_fill_types.induct)
     ((auto split: sum.splits)[1] | blast | fastforce)+

lemma fill_type_names:
  shows "fill_type look t = Inr t' \<Longrightarrow> (n, l) \<in> set (class_refs t) \<Longrightarrow> \<exists>a. look n = Inr a"
    and "fill_types look ts = Inr ts' \<Longrightarrow> (n, l) \<in> set (concat (map class_refs ts)) \<Longrightarrow>
           \<exists>a. look n = Inr a"
  by (induction look t and look ts arbitrary: t' and ts' rule: fill_type_fill_types.induct)
     ((auto split: sum.splits)[1] | blast | fastforce)+

text \<open>What a traversal that may raise does to the type expressions of a node.\<close>

lemma try_Parameter_error: "try_Parameter g p = Inl e \<Longrightarrow> g (param_type p) = Inl e"
  by (cases "g (param_type p)") (auto simp: try_Parameter_def)

lemma try_Constant_error: "try_Constant g c = Inl e \<Longrightarrow> g (const_type c) = Inl e"
  by (cases "g (const_type c)") (auto simp: try_Constant_def)

lemma try_TemplateItem_error: "try_TemplateItem g i = Inl e \<Longrightarrow> g (within_type i) = Inl e"
  by (cases "g (within_type i)") (auto simp: try_TemplateItem_def)

lemma try_Signature_back:
  assumes "try_Signature g sg = Inr sg'" and "t' \<in> set (types_Signature sg')"
  shows "\<exists>t \<in> set (types_Signature sg). g t = Inr t'"
proof -
  from assms(1) obtain ps rt excs where
    ps: "visit_list (try_Parameter g) (params sg) = Inr ps"
    and rt: "g (return_type sg) = Inr rt"
    and excs: "visit_list g (exceptions sg) = Inr excs"
    and sg': "sg' = sg\<lparr>params := ps, return_type := rt, exceptions := excs\<rparr>"
    by (auto simp: try_Signature_def split: sum.splits)
  from assms(2) sg' consider (p) "\<exists>p' \<in> set ps. t' = param_type p'" | (r) "t' = rt"
    | (e) "t' \<in> set excs"
    by (auto simp: types_Signature_def)
  then show ?thesis
  proof cases
    case p
    then obtain p' where p': "p' \<in> set ps" "t' = param_type p'" by blast
    from visit_list_back [OF ps p'(1)] obtain p0 where
      "p0 \<in> set (params sg)" "try_Parameter g p0 = Inr p'" by blast
    with p'(2) show ?thesis
      by (auto simp: try_Parameter_def types_Signature_def split: sum.splits)
  next
    case r
    with rt show ?thesis by (auto simp: types_Signature_def)
  next
    case e
    from visit_list_back [OF excs e] show ?thesis by (auto simp: types_Signature_def)
  qed
qed

lemma try_Signature_forth:
  assumes "try_Signature g sg = Inr sg'" and "t \<in> set (types_Signature sg)"
  shows "\<exists>t'. g t = Inr t'"
proof -
  from assms(1) obtain ps rt excs where
    ps: "visit_list (try_Parameter g) (params sg) = Inr ps"
    and rt: "g (return_type sg) = Inr rt"
    and excs: "visit_list g (exceptions sg) = Inr excs"
    by (auto simp: try_Signature_def split: sum.splits)
  from assms(2) consider (p) "\<exists>p \<in> set (params sg). t = param_type p" | (r) "t = return_type sg"
    | (e) "t \<in> set (exceptions sg)"
    by (auto simp: types_Signature_def)
  then show ?thesis
  proof cases
    case p
    then obtain p0 where p0: "p0 \<in> set (params sg)" "t = param_type p0" by blast
    from visit_list_forth [OF ps p0(1)] p0(2) show ?thesis
      by (auto simp: try_Parameter_def split: sum.splits)
  next
    case r
    with rt show ?thesis by simp
  next
    case e
    from visit_list_forth [OF excs e] show ?thesis by blast
  qed
qed

lemma try_Signature_error:
  assumes "try_Signature g sg = Inl e"
  shows "\<exists>t \<in> set (types_Signature sg). g t = Inl e"
proof -
  from assms consider (p) "visit_list (try_Parameter g) (params sg) = Inl e"
    | (r) "g (return_type sg) = Inl e" | (x) "visit_list g (exceptions sg) = Inl e"
    by (auto simp: try_Signature_def split: sum.splits)
  then show ?thesis
  proof cases
    case p
    from visit_list_error [OF p] obtain p0 where
      "p0 \<in> set (params sg)" "try_Parameter g p0 = Inl e" by blast
    then show ?thesis
      by (auto simp: types_Signature_def dest: try_Parameter_error)
  next
    case r
    then show ?thesis by (auto simp: types_Signature_def)
  next
    case x
    from visit_list_error [OF x] show ?thesis by (auto simp: types_Signature_def)
  qed
qed

lemma try_Function_back:
  assumes "try_Function g fn = Inr fn'" and "t' \<in> set (types_Function fn')"
  shows "\<exists>t \<in> set (types_Function fn). g t = Inr t'"
proof -
  from assms(1) obtain sigs where
    sigs: "visit_list (try_Signature g) (signatures fn) = Inr sigs"
    and fn': "fn' = fn\<lparr>signatures := sigs\<rparr>"
    by (auto simp: try_Function_def split: sum.splits)
  from assms(2) fn' obtain sg' where sg': "sg' \<in> set sigs" "t' \<in> set (types_Signature sg')"
    by (auto simp: types_Function_def)
  from visit_list_back [OF sigs sg'(1)] obtain sg where
    sg: "sg \<in> set (signatures fn)" "try_Signature g sg = Inr sg'" by blast
  from try_Signature_back [OF sg(2) sg'(2)] sg(1) show ?thesis
    by (auto simp: types_Function_def)
qed

lemma try_Function_forth:
  assumes "try_Function g fn = Inr fn'" and "t \<in> set (types_Function fn)"
  shows "\<exists>t'. g t = Inr t'"
proof -
  from assms(1) obtain sigs where
    sigs: "visit_list (try_Signature g) (signatures fn) = Inr sigs"
    by (auto simp: try_Function_def split: sum.splits)
  from assms(2) obtain sg where sg: "sg \<in> set (signatures fn)" "t \<in> set (types_Signature sg)"
    by (auto simp: types_Function_def)
  from visit_list_forth [OF sigs sg(1)] obtain sg' where "try_Signature g sg = Inr sg'" by blast
  from try_Signature_forth [OF this sg(2)] show ?thesis .
qed

lemma try_Function_error:
  assumes "try_Function g fn = Inl e"
  shows "\<exists>t \<in> set (types_Function fn). g t = Inl e"
proof -
  from assms have "visit_list (try_Signature g) (signatures fn) = Inl e"
    by (auto simp: try_Function_def split: sum.splits)
  from visit_list_error [OF this] obtain sg where
    sg: "sg \<in> set (signatures fn)" "try_Signature g sg = Inl e" by blast
  from try_Signature_error [OF sg(2)] sg(1) show ?thesis
    by (auto simp: types_Function_def)
qed

lemma try_template_back:
  assumes "try_template g tmpl = Inr tmpl'" and "t' \<in> set (types_template tmpl')"
  shows "\<exists>t \<in> set (types_template tmpl). g t = Inr t'"
proof (cases tmpl)
  case None
  with assms show ?thesis by (simp add: try_template_def types_template_def)
next
  case (Some ts)
  with assms(1) obtain ts' where
    ts': "visit_list (try_TemplateItem g) ts = Inr ts'" "tmpl' = Some ts'"
    by (auto simp: try_template_def split: sum.splits)
  with assms(2) obtain i' where i': "i' \<in> set ts'" "t' = within_type i'"
    by (auto simp: types_template_def)
  from visit_list_back [OF ts'(1) i'(1)] obtain i where
    "i \<in> set ts" "try_TemplateItem g i = Inr i'" by blast
  with i'(2) Some show ?thesis
    by (auto simp: try_TemplateItem_def types_template_def split: sum.splits)
qed

lemma try_template_forth:
  assumes "try_template g tmpl = Inr tmpl'" and "t \<in> set (types_template tmpl)"
  shows "\<exists>t'. g t = Inr t'"
proof (cases tmpl)
  case None
  with assms show ?thesis by (simp add: types_template_def)
next
  case (Some ts)
  with assms(1) obtain ts' where
    ts': "visit_list (try_TemplateItem g) ts = Inr ts'"
    by (auto simp: try_template_def split: sum.splits)
  from assms(2) Some obtain i where i: "i \<in> set ts" "t = within_type i"
    by (auto simp: types_template_def)
  from visit_list_forth [OF ts' i(1)] i(2) show ?thesis
    by (auto simp: try_TemplateItem_def split: sum.splits)
qed

lemma try_template_error:
  assumes "try_template g tmpl = Inl e"
  shows "\<exists>t \<in> set (types_template tmpl). g t = Inl e"
proof (cases tmpl)
  case None
  with assms show ?thesis by (simp add: try_template_def)
next
  case (Some ts)
  with assms have "visit_list (try_TemplateItem g) ts = Inl e"
    by (auto simp: try_template_def split: sum.splits)
  from visit_list_error [OF this] obtain i where
    "i \<in> set ts" "try_TemplateItem g i = Inl e" by blast
  with Some show ?thesis
    by (auto simp: types_template_def dest: try_TemplateItem_error)
qed

lemma try_Constant_back:
  "try_Constant g c = Inr c' \<Longrightarrow> g (const_type c) = Inr (const_type c')"
  by (cases "g (const_type c)") (auto simp: try_Constant_def)

lemma try_Class_parts:
  assumes "try_Class g c = Inr c'"
  shows "\<exists>tmpl prnts cs ms.
           try_template g (template c) = Inr tmpl
         \<and> visit_list g (parents c) = Inr prnts
         \<and> visit_list (try_Constant g) (constants c) = Inr cs
         \<and> visit_list (try_Function g) (methods c) = Inr ms
         \<and> c' = c\<lparr>template := tmpl, parents := prnts, constants := cs, methods := ms\<rparr>"
  using assms by (auto simp: try_Class_def split: sum.splits)

lemma try_Class_name: "try_Class g c = Inr c' \<Longrightarrow> name c' = name c"
  by (auto dest: try_Class_parts)

lemma try_Class_back:
  assumes "try_Class g c = Inr c'" and "t' \<in> set (types_Class c')"
  shows "\<exists>t \<in> set (types_Class c). g t = Inr t'"
proof -
  from try_Class_parts [OF assms(1)] obtain tmpl prnts cs ms where
    tmpl: "try_template g (template c) = Inr tmpl"
    and prnts: "visit_list g (parents c) = Inr prnts"
    and cs: "visit_list (try_Constant g) (constants c) = Inr cs"
    and ms: "visit_list (try_Function g) (methods c) = Inr ms"
    and c': "c' = c\<lparr>template := tmpl, parents := prnts, constants := cs, methods := ms\<rparr>"
    by blast
  from assms(2) c' consider (tm) "t' \<in> set (types_template tmpl)" | (pa) "t' \<in> set prnts"
    | (co) "\<exists>k \<in> set cs. t' = const_type k"
    | (me) "\<exists>m \<in> set ms. t' \<in> set (types_Function m)"
    by (auto simp: types_Class_def)
  then show ?thesis
  proof cases
    case tm
    from try_template_back [OF tmpl tm] show ?thesis by (auto simp: types_Class_def)
  next
    case pa
    from visit_list_back [OF prnts pa] show ?thesis by (auto simp: types_Class_def)
  next
    case co
    then obtain k where k: "k \<in> set cs" "t' = const_type k" by blast
    from visit_list_back [OF cs k(1)] obtain k0 where
      "k0 \<in> set (constants c)" "try_Constant g k0 = Inr k" by blast
    with k(2) show ?thesis by (auto simp: types_Class_def dest: try_Constant_back)
  next
    case me
    then obtain m where m: "m \<in> set ms" "t' \<in> set (types_Function m)" by blast
    from visit_list_back [OF ms m(1)] obtain m0 where
      m0: "m0 \<in> set (methods c)" "try_Function g m0 = Inr m" by blast
    from try_Function_back [OF m0(2) m(2)] m0(1) show ?thesis
      by (auto simp: types_Class_def)
  qed
qed

lemma try_Class_forth:
  assumes "try_Class g c = Inr c'" and "t \<in> set (types_Class c)"
  shows "\<exists>t'. g t = Inr t'"
proof -
  from try_Class_parts [OF assms(1)] obtain tmpl prnts cs ms where
    tmpl: "try_template g (template c) = Inr tmpl"
    and prnts: "visit_list g (parents c) = Inr prnts"
    and cs: "visit_list (try_Constant g) (constants c) = Inr cs"
    and ms: "visit_list (try_Function g) (methods c) = Inr ms"
    by blast
  from assms(2) consider (tm) "t \<in> set (types_template (template c))" | (pa) "t \<in> set (parents c)"
    | (co) "\<exists>k \<in> set (constants c). t = const_type k"
    | (me) "\<exists>m \<in> set (methods c). t \<in> set (types_Function m)"
    by (auto simp: types_Class_def)
  then show ?thesis
  proof cases
    case tm
    from try_template_forth [OF tmpl tm] show ?thesis .
  next
    case pa
    from visit_list_forth [OF prnts pa] show ?thesis by blast
  next
    case co
    then obtain k where k: "k \<in> set (constants c)" "t = const_type k" by blast
    from visit_list_forth [OF cs k(1)] k(2) show ?thesis
      by (auto dest: try_Constant_back)
  next
    case me
    then obtain m where m: "m \<in> set (methods c)" "t \<in> set (types_Function m)" by blast
    from visit_list_forth [OF ms m(1)] obtain m' where "try_Function g m = Inr m'" by blast
    from try_Function_forth [OF this m(2)] show ?thesis .
  qed
qed

lemma try_Class_error:
  assumes "try_Class g c = Inl e"
  shows "\<exists>t \<in> set (types_Class c). g t = Inl e"
proof -
  from assms consider (tm) "try_template g (template c) = Inl e"
    | (pa) "visit_list g (parents c) = Inl e"
    | (co) "visit_list (try_Constant g) (constants c) = Inl e"
    | (me) "visit_list (try_Function g) (methods c) = Inl e"
    by (auto simp: try_Class_def split: sum.splits)
  then show ?thesis
  proof cases
    case tm
    from try_template_error [OF tm] show ?thesis by (auto simp: types_Class_def)
  next
    case pa
    from visit_list_error [OF pa] show ?thesis by (auto simp: types_Class_def)
  next
    case co
    from visit_list_error [OF co] obtain k where
      "k \<in> set (constants c)" "try_Constant g k = Inl e" by blast
    then show ?thesis by (auto simp: types_Class_def dest: try_Constant_error)
  next
    case me
    from visit_list_error [OF me] obtain m where
      m: "m \<in> set (methods c)" "try_Function g m = Inl e" by blast
    from try_Function_error [OF m(2)] m(1) show ?thesis by (auto simp: types_Class_def)
  qed
qed

text \<open>Stage one on the type expressions of a class.\<close>

lemma types_Class_map:
  "types_Class (map_Class f c) = map f (types_Class c)"
  by (cases "template c")
     (simp_all add: types_Class_def types_template_def types_Function_def types_Signature_def
      map_Class_def map_Constant_def map_Function_def map_Signature_def map_Parameter_def
      map_TemplateItem_def map_concat comp_def)

lemma name_map_Class: "name (map_Class f c) = name c"
  by (simp add: map_Class_def)

text \<open>The symbol table on the heap.\<close>

lemma Lookup_addr_error:
  "Lookup_addr h as n = Inl e \<Longrightarrow> e = KeyError n \<and> (\<forall>a \<in> set as. \<not> has_name h n a)"
  by (auto simp: Lookup_addr_def find_None_iff split: option.splits)

lemma Lookup_addr_found:
  "Lookup_addr h as n = Inr a \<Longrightarrow> a \<in> set as \<and> has_name h n a"
  by (auto simp: Lookup_addr_def find_Some_iff split: option.splits)

lemma Lookup_addr_defined:
  "a \<in> set as \<Longrightarrow> has_name h n a \<Longrightarrow> \<exists>b. Lookup_addr h as n = Inr b"
  by (cases "find (has_name h n) as") (auto simp: Lookup_addr_def find_None_iff)

lemma has_name_cong:
  "\<forall>a. map_option name (h' a) = map_option name (h a) \<Longrightarrow> has_name h' n = has_name h n"
proof (rule ext)
  fix a
  assume "\<forall>a. map_option name (h' a) = map_option name (h a)"
  then have "map_option name (h' a) = map_option name (h a)" by blast
  then show "has_name h' n a = has_name h n a"
    by (cases "h a"; cases "h' a") (auto simp: has_name_def)
qed

lemma Lookup_addr_cong:
  assumes "\<forall>a. map_option name (h' a) = map_option name (h a)"
  shows "Lookup_addr h' as = Lookup_addr h as"
proof (rule ext)
  fix n
  from has_name_cong [OF assms] have "has_name h' n = has_name h n" .
  then show "Lookup_addr h' as n = Lookup_addr h as n" by (simp only: Lookup_addr_def)
qed


lemma fill_classes_other:
  "fill_classes all as h = Inr h' \<Longrightarrow> a \<notin> set as \<Longrightarrow> h' a = h a"
proof (induction as arbitrary: h)
  case Nil
  then show ?case by simp
next
  case (Cons b as)
  from Cons.prems(1) obtain c c' where
    rest: "fill_classes all as (h(b \<mapsto> c')) = Inr h'"
    by (auto split: option.splits sum.splits)
  from Cons.IH [OF rest] Cons.prems(2) show ?case by simp
qed

lemma fill_classes_each:
  assumes "fill_classes all as h = Inr h'" and "distinct as" and "a \<in> set as"
  shows "\<exists>c c'. h a = Some c \<and> try_Class (fill_type (Lookup_addr h all)) c = Inr c'
           \<and> h' a = Some c'"
  using assms
proof (induction as arbitrary: h)
  case Nil
  then show ?case by simp
next
  case (Cons b as)
  from Cons.prems(1) obtain c c' where
    c: "h b = Some c" and c': "try_Class (fill_type (Lookup_addr h all)) c = Inr c'"
    and rest: "fill_classes all as (h(b \<mapsto> c')) = Inr h'"
    by (auto split: option.splits sum.splits)
  from Cons.prems(2) have d: "distinct as" and nb: "b \<notin> set as" by simp_all
  show ?case
  proof (cases "a = b")
    case True
    from fill_classes_other [OF rest nb] have "h' b = Some c'" by simp
    with True c c' show ?thesis by blast
  next
    case False
    with Cons.prems(3) have "a \<in> set as" by simp
    from Cons.IH [OF rest d this] obtain k k' where
      k: "(h(b \<mapsto> c')) a = Some k"
      and k': "try_Class (fill_type (Lookup_addr (h(b \<mapsto> c')) all)) k = Inr k'"
      and h': "h' a = Some k'" by blast
    from c c' have "\<forall>x. map_option name ((h(b \<mapsto> c')) x) = map_option name (h x)"
      by (auto dest: try_Class_name)
    from Lookup_addr_cong [OF this] have "Lookup_addr (h(b \<mapsto> c')) all = Lookup_addr h all" .
    with k' have "try_Class (fill_type (Lookup_addr h all)) k = Inr k'"
      by (simp only:)
    with k h' False show ?thesis by simp
  qed
qed

lemma fill_classes_error:
  assumes "fill_classes all as h = Inl e" and "\<forall>a \<in> set as. h a \<noteq> None" and "distinct as"
  shows "\<exists>a \<in> set as. \<exists>c. h a = Some c
           \<and> try_Class (fill_type (Lookup_addr h all)) c = Inl e"
  using assms
proof (induction as arbitrary: h)
  case Nil
  then show ?case by simp
next
  case (Cons b as)
  from Cons.prems(2) obtain c where c: "h b = Some c" by auto
  from Cons.prems(3) have d: "distinct as" and nb: "b \<notin> set as" by simp_all
  show ?case
  proof (cases "try_Class (fill_type (Lookup_addr h all)) c")
    case (Inl e')
    with Cons.prems(1) c have "e' = e" by simp
    with Inl c show ?thesis by (intro bexI [of _ b]) auto
  next
    case (Inr c')
    let ?h = "h(b \<mapsto> c')"
    from Cons.prems(1) c Inr have rest: "fill_classes all as ?h = Inl e" by simp
    from Cons.prems(2) have "\<forall>a \<in> set as. ?h a \<noteq> None" by simp
    from Cons.IH [OF rest this d] obtain a k where
      a: "a \<in> set as" and k: "?h a = Some k"
      and f: "try_Class (fill_type (Lookup_addr ?h all)) k = Inl e" by blast
    from c Inr have same: "\<forall>x. map_option name (?h x) = map_option name (h x)"
      by (auto dest: try_Class_name)
    from Lookup_addr_cong [OF same] have "Lookup_addr ?h all = Lookup_addr h all" .
    with f have "try_Class (fill_type (Lookup_addr h all)) k = Inl e" by (simp only:)
    moreover from a nb have "a \<noteq> b" by blast
    with k have "h a = Some k" by simp
    ultimately show ?thesis using a by (intro bexI [of _ a]) auto
  qed
qed

text \<open>The class objects of the rebuilt module.\<close>

lemma alloc_at: "i < length cs \<Longrightarrow> alloc h a0 cs (a0 + i) = Some (cs ! i)"
  by (simp add: alloc_def)

lemma alloc_in:
  "a \<in> set [a0 ..< a0 + length cs] \<Longrightarrow> \<exists>i < length cs. a = a0 + i \<and> alloc h a0 cs a = Some (cs ! i)"
proof -
  assume "a \<in> set [a0 ..< a0 + length cs]"
  then have "a0 \<le> a" "a - a0 < length cs" by auto
  then have "a = a0 + (a - a0)" "alloc h a0 cs a = Some (cs ! (a - a0))"
    by (auto simp: alloc_def)
  with \<open>a - a0 < length cs\<close> show ?thesis by blast
qed


lemma unit_classes_stage1:
  "map name (unit_classes (map_TypeDeclUnit lookup_type u)) = map name (unit_classes u)"
  by (simp add: map_TypeDeclUnit_def name_map_Class comp_def)

lemma LookupClasses_parts:
  assumes "LookupClasses h0 a0 u = Inr (uo, h')"
  shows "\<exists>cs fs.
      visit_list (try_Constant (fill_type (Lookup_addr
          (alloc h0 a0 (unit_classes (map_TypeDeclUnit lookup_type u)))
          [a0 ..< a0 + length (unit_classes u)])))
        (unit_constants (map_TypeDeclUnit lookup_type u)) = Inr cs
    \<and> visit_list (try_Function (fill_type (Lookup_addr
          (alloc h0 a0 (unit_classes (map_TypeDeclUnit lookup_type u)))
          [a0 ..< a0 + length (unit_classes u)])))
        (unit_functions (map_TypeDeclUnit lookup_type u)) = Inr fs
    \<and> fill_classes [a0 ..< a0 + length (unit_classes u)] [a0 ..< a0 + length (unit_classes u)]
          (alloc h0 a0 (unit_classes (map_TypeDeclUnit lookup_type u))) = Inr h'
    \<and> uo = \<lparr>obj_constants = cs, obj_functions = fs,
             obj_classes = [a0 ..< a0 + length (unit_classes u)]\<rparr>"
proof -
  have len: "length (unit_classes (map_TypeDeclUnit lookup_type u)) = length (unit_classes u)"
    by (simp add: map_TypeDeclUnit_def)
  from assms show ?thesis
    unfolding LookupClasses_def Let_def len
    by (auto split: sum.splits)
qed

lemma alloc_apply:
  "alloc h a0 cs a = (if a0 \<le> a \<and> a < a0 + length cs then Some (cs ! (a - a0)) else h a)"
  by (simp add: alloc_def)

lemmas resolve_defs = LookupClasses_def map_TypeDeclUnit_def map_Class_def map_Constant_def
  try_Class_def try_template_def try_Constant_def Lookup_addr_def has_name_def alloc_apply
  Let_def


lemma upt_7_1: "[7 ..< 7 + (1::nat)] = [7]"
  by (simp add: upt_rec)


lemma foo_module_run:
  "LookupClasses (\<lambda>_. None) 7 foo_module = Inl (KeyError ''Foo'')"
  by (simp add: resolve_defs foo_module_def upt_7_1)

lemma types_Function_map: "types_Function (map_Function f fn) = map f (types_Function fn)"
  by (simp add: types_Function_def types_Signature_def map_Function_def map_Signature_def
      map_Parameter_def map_concat comp_def)

lemma types_TypeDeclUnit_map:
  "types_TypeDeclUnit (map_TypeDeclUnit f u) = map f (types_TypeDeclUnit u)"
  by (simp add: types_TypeDeclUnit_def map_TypeDeclUnit_def map_Constant_def
      types_Function_map types_Class_map map_concat comp_def)

lemma ref_names_stage1:
  "(\<exists>l. (n, l) \<in> set (class_refs (lookup_type t))) \<longleftrightarrow> n \<in> set (ref_names t)"
proof -
  have "set (ref_names t) = fst ` set (class_refs (lookup_type t))"
    using class_refs_lookup_type [of t] by (metis set_map)
  then show ?thesis by force
qed

text \<open>The lookup in the freshly allocated class objects.\<close>

lemma fresh_has_name:
  "(\<exists>a \<in> set [a0 ..< a0 + length cs]. has_name (alloc h a0 cs) n a) \<longleftrightarrow> n \<in> name ` set cs"
proof
  assume "\<exists>a \<in> set [a0 ..< a0 + length cs]. has_name (alloc h a0 cs) n a"
  then obtain a where a: "a \<in> set [a0 ..< a0 + length cs]" "has_name (alloc h a0 cs) n a" by blast
  from alloc_in [OF a(1), of h] obtain i where
    "i < length cs" "alloc h a0 cs a = Some (cs ! i)" by blast
  with a(2) show "n \<in> name ` set cs" by (auto simp: has_name_def)
next
  assume "n \<in> name ` set cs"
  then obtain i where i: "i < length cs" "name (cs ! i) = n"
    by (auto simp: in_set_conv_nth)
  then have "a0 + i \<in> set [a0 ..< a0 + length cs]" by simp
  moreover from i have "has_name (alloc h a0 cs) n (a0 + i)"
    by (simp add: has_name_def alloc_at)
  ultimately show "\<exists>a \<in> set [a0 ..< a0 + length cs]. has_name (alloc h a0 cs) n a" by blast
qed

lemma fresh_Lookup_error:
  assumes "Lookup_addr (alloc h a0 cs) [a0 ..< a0 + length cs] n = Inl e"
  shows "e = KeyError n \<and> n \<notin> name ` set cs"
  using Lookup_addr_error [OF assms] fresh_has_name [of a0 cs h n] by blast

lemma fresh_Lookup_found:
  assumes "Lookup_addr (alloc h a0 cs) [a0 ..< a0 + length cs] n = Inr b"
  shows "n \<in> name ` set cs"
  using Lookup_addr_found [OF assms] fresh_has_name [of a0 cs h n] by blast

lemma LookupClasses_error_parts:
  assumes "LookupClasses h0 a0 u = Inl e"
  shows
    "visit_list (try_Constant (fill_type (Lookup_addr
          (alloc h0 a0 (unit_classes (map_TypeDeclUnit lookup_type u)))
          [a0 ..< a0 + length (unit_classes (map_TypeDeclUnit lookup_type u))])))
        (unit_constants (map_TypeDeclUnit lookup_type u)) = Inl e
     \<or> visit_list (try_Function (fill_type (Lookup_addr
          (alloc h0 a0 (unit_classes (map_TypeDeclUnit lookup_type u)))
          [a0 ..< a0 + length (unit_classes (map_TypeDeclUnit lookup_type u))])))
        (unit_functions (map_TypeDeclUnit lookup_type u)) = Inl e
     \<or> fill_classes [a0 ..< a0 + length (unit_classes (map_TypeDeclUnit lookup_type u))]
          [a0 ..< a0 + length (unit_classes (map_TypeDeclUnit lookup_type u))]
          (alloc h0 a0 (unit_classes (map_TypeDeclUnit lookup_type u))) = Inl e"
  using assms unfolding LookupClasses_def Let_def
  by (auto split: sum.splits)

lemma resolution_error:
  assumes "LookupClasses h0 a0 u = Inl e"
  shows "\<exists>t \<in> set (types_TypeDeclUnit (map_TypeDeclUnit lookup_type u)).
           fill_type (Lookup_addr (alloc h0 a0 (unit_classes (map_TypeDeclUnit lookup_type u)))
             [a0 ..< a0 + length (unit_classes (map_TypeDeclUnit lookup_type u))]) t = Inl e"
proof -
  let ?unit = "map_TypeDeclUnit lookup_type u"
  let ?addrs = "[a0 ..< a0 + length (unit_classes ?unit)]"
  let ?h1 = "alloc h0 a0 (unit_classes ?unit)"
  let ?g = "fill_type (Lookup_addr ?h1 ?addrs)"
  from LookupClasses_error_parts [OF assms] consider
    (co) "visit_list (try_Constant ?g) (unit_constants ?unit) = Inl e"
    | (fu) "visit_list (try_Function ?g) (unit_functions ?unit) = Inl e"
    | (cl) "fill_classes ?addrs ?addrs ?h1 = Inl e"
    by blast
  then show ?thesis
  proof cases
    case co
    from visit_list_error [OF co] obtain k where
      "k \<in> set (unit_constants ?unit)" "try_Constant ?g k = Inl e" by blast
    then show ?thesis
      by (auto simp: types_TypeDeclUnit_def dest: try_Constant_error)
  next
    case fu
    from visit_list_error [OF fu] obtain m where
      m: "m \<in> set (unit_functions ?unit)" "try_Function ?g m = Inl e" by blast
    from try_Function_error [OF m(2)] m(1) show ?thesis
      by (auto simp: types_TypeDeclUnit_def)
  next
    case cl
    have "\<forall>a \<in> set ?addrs. ?h1 a \<noteq> None"
      using alloc_in [of _ a0 "unit_classes ?unit" h0] by fastforce
    from fill_classes_error [OF cl this] obtain a c where
      a: "a \<in> set ?addrs" and c: "?h1 a = Some c" and f: "try_Class ?g c = Inl e"
      by auto
    from alloc_in [OF a, of h0] c have "c \<in> set (unit_classes ?unit)" by auto
    with try_Class_error [OF f] show ?thesis
      by (auto simp: types_TypeDeclUnit_def)
  qed
qed

lemma resolution_forth:
  assumes run: "LookupClasses h0 a0 u = Inr (uo, h')"
    and t: "t \<in> set (types_TypeDeclUnit (map_TypeDeclUnit lookup_type u))"
  shows "\<exists>t'. fill_type (Lookup_addr (alloc h0 a0 (unit_classes (map_TypeDeclUnit lookup_type u)))
             [a0 ..< a0 + length (unit_classes u)]) t = Inr t'"
proof -
  let ?unit = "map_TypeDeclUnit lookup_type u"
  let ?addrs = "[a0 ..< a0 + length (unit_classes u)]"
  let ?h1 = "alloc h0 a0 (unit_classes ?unit)"
  let ?g = "fill_type (Lookup_addr ?h1 ?addrs)"
  have len: "length (unit_classes ?unit) = length (unit_classes u)"
    by (simp add: map_TypeDeclUnit_def)
  from LookupClasses_parts [OF run] obtain cs fs where
    cs: "visit_list (try_Constant ?g) (unit_constants ?unit) = Inr cs"
    and fs: "visit_list (try_Function ?g) (unit_functions ?unit) = Inr fs"
    and fc: "fill_classes ?addrs ?addrs ?h1 = Inr h'" by blast
  from t consider (co) "\<exists>k \<in> set (unit_constants ?unit). t = const_type k"
    | (fu) "\<exists>m \<in> set (unit_functions ?unit). t \<in> set (types_Function m)"
    | (cl) "\<exists>c \<in> set (unit_classes ?unit). t \<in> set (types_Class c)"
    by (auto simp: types_TypeDeclUnit_def)
  then show ?thesis
  proof cases
    case co
    then obtain k where k: "k \<in> set (unit_constants ?unit)" "t = const_type k" by blast
    from visit_list_forth [OF cs k(1)] k(2) show ?thesis by (auto dest: try_Constant_back)
  next
    case fu
    then obtain m where m: "m \<in> set (unit_functions ?unit)" "t \<in> set (types_Function m)" by blast
    from visit_list_forth [OF fs m(1)] obtain m' where "try_Function ?g m = Inr m'" by blast
    from try_Function_forth [OF this m(2)] show ?thesis .
  next
    case cl
    then obtain c where c: "c \<in> set (unit_classes ?unit)" "t \<in> set (types_Class c)" by blast
    then obtain i where i: "i < length (unit_classes ?unit)" "unit_classes ?unit ! i = c"
      by (auto simp: in_set_conv_nth)
    with len have a: "a0 + i \<in> set ?addrs" by simp
    have d: "distinct ?addrs" by simp
    from fill_classes_each [OF fc d a] alloc_at [OF i(1), of h0 a0] i(2)
    obtain c' where "try_Class ?g c = Inr c'" by auto
    from try_Class_forth [OF this c(2)] show ?thesis .
  qed
qed

lemma resolution_back:
  assumes run: "LookupClasses h0 a0 u = Inr (uo, h')"
    and t': "t' \<in> set (types_UnitObj h' uo)"
  shows "\<exists>t. fill_type (Lookup_addr (alloc h0 a0 (unit_classes (map_TypeDeclUnit lookup_type u)))
             [a0 ..< a0 + length (unit_classes u)]) t = Inr t'"
proof -
  let ?unit = "map_TypeDeclUnit lookup_type u"
  let ?addrs = "[a0 ..< a0 + length (unit_classes u)]"
  let ?h1 = "alloc h0 a0 (unit_classes ?unit)"
  let ?g = "fill_type (Lookup_addr ?h1 ?addrs)"
  from LookupClasses_parts [OF run] obtain cs fs where
    cs: "visit_list (try_Constant ?g) (unit_constants ?unit) = Inr cs"
    and fs: "visit_list (try_Function ?g) (unit_functions ?unit) = Inr fs"
    and fc: "fill_classes ?addrs ?addrs ?h1 = Inr h'"
    and uo: "uo = \<lparr>obj_constants = cs, obj_functions = fs, obj_classes = ?addrs\<rparr>" by blast
  from t' uo have "(\<exists>k \<in> set cs. t' = const_type k)
      \<or> (\<exists>m \<in> set fs. t' \<in> set (types_Function m))
      \<or> (\<exists>a \<in> set ?addrs. \<exists>c. h' a = Some c \<and> t' \<in> set (types_Class c))"
    by (fastforce simp: types_UnitObj_def split: option.splits)
  then consider (co) "\<exists>k \<in> set cs. t' = const_type k"
    | (fu) "\<exists>m \<in> set fs. t' \<in> set (types_Function m)"
    | (cl) "\<exists>a \<in> set ?addrs. \<exists>c. h' a = Some c \<and> t' \<in> set (types_Class c)"
    by blast
  then show ?thesis
  proof cases
    case co
    then obtain k where k: "k \<in> set cs" "t' = const_type k" by blast
    from visit_list_back [OF cs k(1)] k(2) show ?thesis by (auto dest: try_Constant_back)
  next
    case fu
    then obtain m where m: "m \<in> set fs" "t' \<in> set (types_Function m)" by blast
    from visit_list_back [OF fs m(1)] obtain m0 where "try_Function ?g m0 = Inr m" by blast
    from try_Function_back [OF this m(2)] show ?thesis by blast
  next
    case cl
    then obtain a c where a: "a \<in> set ?addrs" "h' a = Some c" "t' \<in> set (types_Class c)" by blast
    have d: "distinct ?addrs" by simp
    from fill_classes_each [OF fc d a(1)] a(2)
    obtain c0 where "try_Class ?g c0 = Inr c" by auto
    from try_Class_back [OF this a(3)] show ?thesis by blast
  qed
qed


text \<open>
  Claim C5.  When \<^verbatim>\<open>LookupClasses\<close> fails, it fails with the lookup error for a name that
  the module refers to and does not define; the visitors document that error as
  \<^verbatim>\<open>KeyError\<close>, and the specification calls it UnresolvedNameError.  When the module
  refers to a name it does not define, the run fails with such an error, so with the
  error for \<^verbatim>\<open>Foo\<close> when \<^verbatim>\<open>Foo\<close> is the one undefined name.  A run that returns a module
  leaves no \<^verbatim>\<open>ClassType\<close> node with an empty link cell in it.
\<close>

theorem unresolved_name_aborts_resolution:
  "(LookupClasses h0 a0 u = Inl e \<longrightarrow>
      (\<exists>n. e = KeyError n \<and> n \<in> set (unit_ref_names u) \<and> n \<notin> name ` set (unit_classes u)))
   \<and> (n \<in> set (unit_ref_names u) \<and> n \<notin> name ` set (unit_classes u) \<longrightarrow>
        (\<exists>n'. LookupClasses h0 a0 u = Inl (KeyError n')
           \<and> n' \<in> set (unit_ref_names u) \<and> n' \<notin> name ` set (unit_classes u)))
   \<and> (LookupClasses h0 a0 u = Inr (uo, h') \<longrightarrow>
        (\<forall>t \<in> set (types_UnitObj h' uo). \<forall>(m, l) \<in> set (class_refs t). l \<noteq> None))"
proof -
  let ?unit = "map_TypeDeclUnit lookup_type u"
  let ?addrs = "[a0 ..< a0 + length (unit_classes ?unit)]"
  let ?h1 = "alloc h0 a0 (unit_classes ?unit)"
  let ?look = "Lookup_addr ?h1 ?addrs"
  have len: "length (unit_classes ?unit) = length (unit_classes u)"
    by (simp add: map_TypeDeclUnit_def)
  have names: "name ` set (unit_classes ?unit) = name ` set (unit_classes u)"
    using unit_classes_stage1 [of u] by (metis set_map)
  have err: "\<exists>k. x = KeyError k \<and> k \<in> set (unit_ref_names u) \<and> k \<notin> name ` set (unit_classes u)"
    if "LookupClasses h0 a0 u = Inl x" for x
  proof -
    from resolution_error [OF that] obtain t where
      t: "t \<in> set (types_TypeDeclUnit ?unit)" and f: "fill_type ?look t = Inl x" by blast
    from fill_type_error(1) [OF f] obtain k l where
      k: "(k, l) \<in> set (class_refs t)" and lk: "?look k = Inl x" by auto
    from fresh_Lookup_error [OF lk] names
    have x: "x = KeyError k" and undefined: "k \<notin> name ` set (unit_classes u)" by simp_all
    from t obtain t0 where t0: "t0 \<in> set (types_TypeDeclUnit u)" "t = lookup_type t0"
      by (auto simp: types_TypeDeclUnit_map)
    with k have "k \<in> set (ref_names t0)" using ref_names_stage1 [of k t0] by blast
    with t0(1) have "k \<in> set (unit_ref_names u)" by (auto simp: unit_ref_names_def)
    with x undefined show ?thesis by blast
  qed
  have fails: "\<exists>x. LookupClasses h0 a0 u = Inl x"
    if n: "n \<in> set (unit_ref_names u)" and un: "n \<notin> name ` set (unit_classes u)"
  proof (cases "LookupClasses h0 a0 u")
    case (Inl x)
    then show ?thesis by blast
  next
    case (Inr res)
    obtain uo1 h1' where res: "res = (uo1, h1')" by (cases res)
    from n obtain t0 where t0: "t0 \<in> set (types_TypeDeclUnit u)" "n \<in> set (ref_names t0)"
      by (auto simp: unit_ref_names_def)
    from t0(2) obtain l where l: "(n, l) \<in> set (class_refs (lookup_type t0))"
      using ref_names_stage1 [of n t0] by blast
    from t0(1) have "lookup_type t0 \<in> set (types_TypeDeclUnit ?unit)"
      by (simp add: types_TypeDeclUnit_map)
    from resolution_forth [OF Inr [unfolded res] this] obtain t' where
      "fill_type (Lookup_addr ?h1 [a0 ..< a0 + length (unit_classes u)]) (lookup_type t0) = Inr t'"
      by blast
    from fill_type_names(1) [OF this l] obtain b where
      "Lookup_addr ?h1 [a0 ..< a0 + length (unit_classes u)] n = Inr b" by blast
    then have "?look n = Inr b" by (simp only: len)
    from fresh_Lookup_found [OF this] names un show ?thesis by simp
  qed
  have links: "\<forall>t \<in> set (types_UnitObj h' uo). \<forall>(m, l) \<in> set (class_refs t). l \<noteq> None"
    if run: "LookupClasses h0 a0 u = Inr (uo, h')"
  proof -
    have "l \<noteq> None" if t: "t \<in> set (types_UnitObj h' uo)" and r: "(m, l) \<in> set (class_refs t)"
      for t m l
    proof -
      from resolution_back [OF run t] obtain t0 where
        "fill_type (Lookup_addr ?h1 [a0 ..< a0 + length (unit_classes u)]) t0 = Inr t" by blast
      from fill_type_links(1) [OF this r] show ?thesis by auto
    qed
    then show ?thesis by auto
  qed
  from err fails links show ?thesis by blast
qed

theorem unresolved_name_aborts_resolution_witness:
  "''Foo'' \<in> set (unit_ref_names foo_module) \<and> ''Foo'' \<notin> name ` set (unit_classes foo_module)
   \<and> LookupClasses (\<lambda>_. None) 7 foo_module = Inl (KeyError ''Foo'')"
  using unresolved_name_aborts_resolution
    [of "\<lambda>_. None" 7 foo_module "KeyError ''Foo''" "''Foo''"] foo_module_run
  by (simp add: unit_ref_names_def types_TypeDeclUnit_def types_Class_def types_template_def
      foo_module_def)


end
